theory Spec2Isabelle
  imports Complex_Main
begin

section \<open>Python values, dictionaries and exceptions\<close>

text \<open>
  The risk agent of \<^verbatim>\<open>agents/risk_agent.py\<close> works on dictionaries whose values are
  dynamically typed: a stored transaction carries numbers, text, \<^verbatim>\<open>None\<close> for a
  field the extractor did not find, and a timestamp that is ISO text or a datetime object,
  depending on the storage service.

  A number is the exact value of a Python \<^verbatim>\<open>int\<close> or of a finite \<^verbatim>\<open>float\<close>.
  What an arithmetic operation returns on floats is rounded by the runtime and is not fixed
  here: the mean and the standard deviation of numpy and the rounded difference, quotient
  and product are parameters (the record \<open>numerics\<close>), and every statement below holds
  whatever they return. Comparisons and \<^verbatim>\<open>abs\<close> are exact on floats and are those of
  the reals. Not-a-number and the infinities are not modelled.
\<close>

datatype datetime =
  Datetime (dt_year: nat) (dt_month: nat) (dt_day: nat)
           (dt_hour: nat) (dt_minute: nat) (dt_second: nat)

datatype pyval = PNone | PNum real | PStr string | PDatetime datetime

datatype exn = KeyError | TypeError | AttributeError | ValueError | ZeroDivisionError

type_synonym pydict = "string \<Rightarrow> pyval option"

text \<open>
  The arithmetic of the runtime: \<^verbatim>\<open>np.mean\<close>, \<^verbatim>\<open>np.std\<close>, and the results of
  \<^verbatim>\<open>a - b\<close>, \<^verbatim>\<open>a / b\<close> (for a divisor other than 0) and \<^verbatim>\<open>a * b\<close> on numbers.
\<close>

record numerics =
  np_mean :: "real list \<Rightarrow> real"
  np_std :: "real list \<Rightarrow> real"
  float_sub :: "real \<Rightarrow> real \<Rightarrow> real"
  float_div :: "real \<Rightarrow> real \<Rightarrow> real"
  float_mul :: "real \<Rightarrow> real \<Rightarrow> real"

text \<open>\<^verbatim>\<open>d.get(key, default)\<close>\<close>

definition get :: "pydict \<Rightarrow> string \<Rightarrow> pyval \<Rightarrow> pyval" where
  "get d k dflt = (case d k of None \<Rightarrow> dflt | Some v \<Rightarrow> v)"

text \<open>\<^verbatim>\<open>d[key]\<close>\<close>

definition getitem :: "pydict \<Rightarrow> string \<Rightarrow> exn + pyval" where
  "getitem d k = (case d k of None \<Rightarrow> Inl KeyError | Some v \<Rightarrow> Inr v)"

text \<open>\<^verbatim>\<open>v > 0\<close>: only numbers are ordered against a number.\<close>

fun py_gt0 :: "pyval \<Rightarrow> exn + bool" where
  "py_gt0 (PNum x) = Inr (0 < x)"
| "py_gt0 _ = Inl TypeError"

text \<open>\<^verbatim>\<open>v == 0\<close>: never raises; a value that is not a number differs from 0.\<close>

fun py_eq0 :: "pyval \<Rightarrow> bool" where
  "py_eq0 (PNum x) = (x = 0)"
| "py_eq0 _ = False"

text \<open>\<^verbatim>\<open>a / b\<close> on values taken from a dictionary.\<close>

fun py_truediv :: "numerics \<Rightarrow> pyval \<Rightarrow> pyval \<Rightarrow> exn + real" where
  "py_truediv num (PNum a) (PNum b) =
     (if b = 0 then Inl ZeroDivisionError else Inr (float_div num a b))"
| "py_truediv num _ _ = Inl TypeError"

text \<open>Truth value of an object, as \<^verbatim>\<open>not item\<close> tests it.\<close>

fun truthy :: "pyval \<Rightarrow> bool" where
  "truthy PNone = False"
| "truthy (PNum x) = (x \<noteq> 0)"
| "truthy (PStr s) = (s \<noteq> [])"
| "truthy (PDatetime _) = True"

section \<open>Configuration and collaborators\<close>

text \<open>The agent configuration block of \<^verbatim>\<open>config.py\<close>.\<close>

record config =
  LIQUIDITY_ALERT_THRESHOLD_DAYS :: nat
  LOW_STOCK_THRESHOLD :: nat
  ANOMALY_THRESHOLD :: real

definition Config :: config where
  "Config = \<lparr>LIQUIDITY_ALERT_THRESHOLD_DAYS = 7, LOW_STOCK_THRESHOLD = 10,
             ANOMALY_THRESHOLD = 15 / 100\<rparr>"

record risk_agent =
  anomaly_threshold :: real

text \<open>\<^verbatim>\<open>RiskAgent.__init__\<close>; the database handle is passed to the operations instead.\<close>

definition RiskAgent_init :: "config \<Rightarrow> risk_agent" where
  "RiskAgent_init cfg = \<lparr>anomaly_threshold = ANOMALY_THRESHOLD cfg\<rparr>"

text \<open>
  Library code the agent calls, taken as parameters.
  \<^item> \<open>IsolationForest contamination random_state X\<close> stands for
    \<^verbatim>\<open>IsolationForest(contamination=..., random_state=...).fit(X)\<close>: it raises or yields
    the fitted model. The \<^verbatim>\<open>predict\<close> of the model receives the current amount as the
    dictionary holds it, converts it as the library does (text that spells a numeral is
    converted, other text is refused), and raises or answers \<open>1\<close> or \<open>-1\<close>.
  \<^item> \<open>fromisoformat\<close> parses ISO text; \<open>None\<close> is \<^verbatim>\<open>ValueError\<close>.
  \<^item> \<open>str_lower\<close> is \<^verbatim>\<open>str.lower\<close>, on all of Unicode.
  \<^item> \<open>format_2f\<close>, \<open>format_1f\<close>, \<open>str_val\<close> and \<open>str_int\<close> render
    \<^verbatim>\<open>{x:.2f}\<close>, \<^verbatim>\<open>{x:.1f}\<close> and \<^verbatim>\<open>{x}\<close> inside an f-string.
\<close>

record library =
  IsolationForest :: "real \<Rightarrow> nat \<Rightarrow> real list \<Rightarrow> exn + (pyval \<Rightarrow> exn + int)"
  fromisoformat :: "string \<Rightarrow> datetime option"
  str_lower :: "string \<Rightarrow> string"
  format_2f :: "real \<Rightarrow> string"
  format_1f :: "real \<Rightarrow> string"
  str_val :: "pyval \<Rightarrow> string"
  str_int :: "nat \<Rightarrow> string"

text \<open>
  \<^verbatim>\<open>v.lower()\<close>: only text has the method, any other value raises
  \<^verbatim>\<open>AttributeError\<close>.
\<close>

fun lower :: "library \<Rightarrow> pyval \<Rightarrow> exn + string" where
  "lower lib (PStr s) = Inr (str_lower lib s)"
| "lower lib _ = Inl AttributeError"

text \<open>\<^verbatim>\<open>datetime.fromisoformat(v)\<close>: the argument must be text.\<close>

fun datetime_fromisoformat :: "library \<Rightarrow> pyval \<Rightarrow> exn + datetime" where
  "datetime_fromisoformat lib (PStr s) =
     (case fromisoformat lib s of None \<Rightarrow> Inl ValueError | Some d \<Rightarrow> Inr d)"
| "datetime_fromisoformat lib _ = Inl TypeError"

section \<open>Detector results\<close>

text \<open>
  A detector returns a dictionary with the keys \<^verbatim>\<open>check\<close> and \<^verbatim>\<open>is_anomaly\<close> and,
  depending on the path taken, its evidence or an \<^verbatim>\<open>error\<close> note. An absent key is
  \<open>None\<close>. The key \<^verbatim>\<open>value\<close> is the field \<open>val\<close>; the note \<^verbatim>\<open>str(e)\<close> is kept
  as the exception. \<^verbatim>\<open>typical_hours\<close> is \<^verbatim>\<open>list(set(...))\<close>, whose order Python
  leaves open: it is kept as the set.
\<close>

record check_result =
  check :: string
  is_anomaly :: bool
  val :: "pyval option"
  mean :: "real option"
  std :: "real option"
  z_score :: "real option"
  hour :: "nat option"
  typical_hours :: "nat set option"
  current_price :: "real option"
  mean_price :: "real option"
  deviation_pct :: "real option"
  error :: "exn option"

text \<open>\<^verbatim>\<open>{'check': name, 'is_anomaly': False}\<close>\<close>

definition not_anomalous :: "string \<Rightarrow> check_result" where
  "not_anomalous name =
     \<lparr>check = name, is_anomaly = False, val = None, mean = None, std = None,
      z_score = None, hour = None, typical_hours = None, current_price = None,
      mean_price = None, deviation_pct = None, error = None\<rparr>"

text \<open>\<^verbatim>\<open>{'check': name, 'is_anomaly': False, 'error': str(e)}\<close>\<close>

definition failed :: "string \<Rightarrow> exn \<Rightarrow> check_result" where
  "failed name e = (not_anomalous name)\<lparr>error := Some e\<rparr>"

text \<open>The \<^verbatim>\<open>try\<close> ... \<^verbatim>\<open>except Exception\<close> around the body of every detector.\<close>

definition absorb :: "string \<Rightarrow> exn + check_result \<Rightarrow> check_result" where
  "absorb name body = (case body of Inl e \<Rightarrow> failed name e | Inr r \<Rightarrow> r)"

section \<open>The four detectors\<close>

subsection \<open>Amount\<close>

text \<open>
  \<^verbatim>\<open>[txn['amount'] for txn in historical if txn['amount'] > 0]\<close>: a missing key
  raises \<^verbatim>\<open>KeyError\<close>, the comparison of a value that is not a number
  \<^verbatim>\<open>TypeError\<close>.
\<close>

fun positive_amounts :: "pydict list \<Rightarrow> exn + real list" where
  "positive_amounts [] = Inr []"
| "positive_amounts (txn # rest) =
     (case getitem txn ''amount'' of
        Inl e \<Rightarrow> Inl e
      | Inr (PNum a) \<Rightarrow>
          (case positive_amounts rest of
             Inl e \<Rightarrow> Inl e
           | Inr amounts \<Rightarrow> Inr (if 0 < a then a # amounts else amounts))
      | Inr v \<Rightarrow> Inl TypeError)"

definition check_amount_anomaly_body ::
  "risk_agent \<Rightarrow> library \<Rightarrow> numerics \<Rightarrow> pydict \<Rightarrow> pydict list \<Rightarrow> exn + check_result" where
  "check_amount_anomaly_body self lib num transaction historical =
     (case positive_amounts historical of
        Inl e \<Rightarrow> Inl e
      | Inr amounts \<Rightarrow>
          if length amounts < 10 then Inr (not_anomalous ''amount'')
          else
            (case IsolationForest lib (anomaly_threshold self) 42 amounts of
               Inl e \<Rightarrow> Inl e
             | Inr predict \<Rightarrow>
                 (case getitem transaction ''amount'' of
                    Inl e \<Rightarrow> Inl e
                  | Inr current_amount \<Rightarrow>
                      (case predict current_amount of
                         Inl e \<Rightarrow> Inl e
                       | Inr prediction \<Rightarrow>
                           Inr ((not_anomalous ''amount'')
                                \<lparr>is_anomaly := (prediction = - 1),
                                 val := Some current_amount,
                                 mean := Some (np_mean num amounts),
                                 std := Some (np_std num amounts)\<rparr>)))))"

definition check_amount_anomaly ::
  "risk_agent \<Rightarrow> library \<Rightarrow> numerics \<Rightarrow> pydict \<Rightarrow> pydict list \<Rightarrow> check_result" where
  "check_amount_anomaly self lib num transaction historical =
     absorb ''amount'' (check_amount_anomaly_body self lib num transaction historical)"

subsection \<open>Quantity\<close>

text \<open>
  \<^verbatim>\<open>[txn['quantity'] for txn in historical if txn.get('quantity', 0) > 0]\<close>: a
  missing key reads as 0 and is filtered out, a value that is not a number raises
  \<^verbatim>\<open>TypeError\<close> in the comparison.
\<close>

fun positive_quantities :: "pydict list \<Rightarrow> exn + real list" where
  "positive_quantities [] = Inr []"
| "positive_quantities (txn # rest) =
     (case get txn ''quantity'' (PNum 0) of
        PNum q \<Rightarrow>
          (case positive_quantities rest of
             Inl e \<Rightarrow> Inl e
           | Inr quantities \<Rightarrow> Inr (if 0 < q then q # quantities else quantities))
      | v \<Rightarrow> Inl TypeError)"

text \<open>
  \<^verbatim>\<open>abs((current_qty - mean_qty) / std_qty) if std_qty > 0 else 0\<close>: the arithmetic is
  evaluated, and can raise, only when the deviation is positive.
\<close>

definition quantity_z_score :: "numerics \<Rightarrow> pyval \<Rightarrow> real \<Rightarrow> real \<Rightarrow> exn + real" where
  "quantity_z_score num current_qty mean_qty std_qty =
     (if 0 < std_qty
      then (case current_qty of
              PNum c \<Rightarrow> Inr \<bar>float_div num (float_sub num c mean_qty) std_qty\<bar>
            | _ \<Rightarrow> Inl TypeError)
      else Inr 0)"

definition check_quantity_anomaly_body ::
  "numerics \<Rightarrow> pydict \<Rightarrow> pydict list \<Rightarrow> exn + check_result" where
  "check_quantity_anomaly_body num transaction historical =
     (case positive_quantities historical of
        Inl e \<Rightarrow> Inl e
      | Inr quantities \<Rightarrow>
          if length quantities < 10 then Inr (not_anomalous ''quantity'')
          else
            (let mean_qty = np_mean num quantities;
                 std_qty = np_std num quantities;
                 current_qty = get transaction ''quantity'' (PNum 0)
             in case quantity_z_score num current_qty mean_qty std_qty of
                  Inl e \<Rightarrow> Inl e
                | Inr z \<Rightarrow>
                    Inr ((not_anomalous ''quantity'')
                         \<lparr>is_anomaly := (3 < z),
                          val := Some current_qty,
                          z_score := Some z\<rparr>)))"

definition check_quantity_anomaly :: "numerics \<Rightarrow> pydict \<Rightarrow> pydict list \<Rightarrow> check_result" where
  "check_quantity_anomaly num transaction historical =
     absorb ''quantity'' (check_quantity_anomaly_body num transaction historical)"

subsection \<open>Timing\<close>

text \<open>
  \<^verbatim>\<open>[datetime.fromisoformat(txn['created_at']).hour for txn in historical]\<close>: one
  transaction without the key, or with a timestamp that does not parse, raises.
\<close>

fun historical_hours :: "library \<Rightarrow> pydict list \<Rightarrow> exn + nat list" where
  "historical_hours lib [] = Inr []"
| "historical_hours lib (txn # rest) =
     (case getitem txn ''created_at'' of
        Inl e \<Rightarrow> Inl e
      | Inr v \<Rightarrow>
          (case datetime_fromisoformat lib v of
             Inl e \<Rightarrow> Inl e
           | Inr d \<Rightarrow>
               (case historical_hours lib rest of
                  Inl e \<Rightarrow> Inl e
                | Inr hours \<Rightarrow> Inr (dt_hour d # hours))))"

definition check_unusual_timing_body ::
  "library \<Rightarrow> pydict \<Rightarrow> pydict list \<Rightarrow> exn + check_result" where
  "check_unusual_timing_body lib transaction historical =
     (case getitem transaction ''created_at'' of
        Inl e \<Rightarrow> Inl e
      | Inr v \<Rightarrow>
          (case datetime_fromisoformat lib v of
             Inl e \<Rightarrow> Inl e
           | Inr txn_time \<Rightarrow>
               (case historical_hours lib historical of
                  Inl e \<Rightarrow> Inl e
                | Inr hours \<Rightarrow>
                    (let txn_hour = dt_hour txn_time;
                         is_unusual = (23 \<le> txn_hour \<or> txn_hour \<le> 5);
                         never_used = (txn_hour \<notin> set hours)
                     in Inr ((not_anomalous ''timing'')
                             \<lparr>is_anomaly := (is_unusual \<and> never_used),
                              hour := Some txn_hour,
                              typical_hours := Some (set hours)\<rparr>)))))"

definition check_unusual_timing :: "library \<Rightarrow> pydict \<Rightarrow> pydict list \<Rightarrow> check_result" where
  "check_unusual_timing lib transaction historical =
     absorb ''timing'' (check_unusual_timing_body lib transaction historical)"

subsection \<open>Price\<close>

text \<open>
  The loop that collects the unit prices of the historical transactions of the same item.
  \<^verbatim>\<open>txn.get('item', '')\<close> covers a missing key; a stored \<^verbatim>\<open>None\<close> has no
  \<^verbatim>\<open>lower\<close> and raises. Quantity and amount are read on the rows of the item only.
\<close>

fun historical_prices :: "library \<Rightarrow> numerics \<Rightarrow> pyval \<Rightarrow> pydict list \<Rightarrow> exn + real list" where
  "historical_prices lib num item [] = Inr []"
| "historical_prices lib num item (txn # rest) =
     (case lower lib (get txn ''item'' (PStr [])) of
        Inl e \<Rightarrow> Inl e
      | Inr txn_item \<Rightarrow>
          (case lower lib item of
             Inl e \<Rightarrow> Inl e
           | Inr wanted \<Rightarrow>
               if txn_item = wanted then
                 (let qty = get txn ''quantity'' (PNum 0);
                      amt = get txn ''amount'' (PNum 0)
                  in case py_gt0 qty of
                       Inl e \<Rightarrow> Inl e
                     | Inr positive \<Rightarrow>
                         if positive then
                           (case py_truediv num amt qty of
                              Inl e \<Rightarrow> Inl e
                            | Inr price \<Rightarrow>
                                (case historical_prices lib num item rest of
                                   Inl e \<Rightarrow> Inl e
                                 | Inr prices \<Rightarrow> Inr (price # prices)))
                         else historical_prices lib num item rest)
               else historical_prices lib num item rest))"

text \<open>\<^verbatim>\<open>abs((current_price - mean_price) / mean_price) if mean_price > 0 else 0\<close>\<close>

definition price_deviation :: "numerics \<Rightarrow> real \<Rightarrow> real \<Rightarrow> real" where
  "price_deviation num current mean_p =
     (if 0 < mean_p then \<bar>float_div num (float_sub num current mean_p) mean_p\<bar> else 0)"

definition check_price_deviation_body ::
  "library \<Rightarrow> numerics \<Rightarrow> pydict \<Rightarrow> pydict list \<Rightarrow> pydict \<Rightarrow> exn + check_result" where
  "check_price_deviation_body lib num transaction historical entities =
     (let item = get entities ''item'' PNone in
      if \<not> truthy item then Inr (not_anomalous ''price'')
      else
        (case historical_prices lib num item historical of
           Inl e \<Rightarrow> Inl e
         | Inr prices \<Rightarrow>
             if length prices < 3 then Inr (not_anomalous ''price'')
             else
               (let current_qty = get entities ''quantity'' (PNum 0);
                    current_amt = get transaction ''amount'' (PNum 0)
                in if py_eq0 current_qty then Inr (not_anomalous ''price'')
                   else
                     (case py_truediv num current_amt current_qty of
                        Inl e \<Rightarrow> Inl e
                      | Inr price \<Rightarrow>
                          (let mean_p = np_mean num prices;
                               deviation = price_deviation num price mean_p
                           in Inr ((not_anomalous ''price'')
                                   \<lparr>is_anomaly := (1 / 2 < deviation),
                                    current_price := Some price,
                                    mean_price := Some mean_p,
                                    deviation_pct := Some (float_mul num deviation 100)\<rparr>))))))"

definition check_price_deviation ::
  "library \<Rightarrow> numerics \<Rightarrow> pydict \<Rightarrow> pydict list \<Rightarrow> pydict \<Rightarrow> check_result" where
  "check_price_deviation lib num transaction historical entities =
     absorb ''price'' (check_price_deviation_body lib num transaction historical entities)"

section \<open>The aggregator\<close>

text \<open>
  The alerting sink: \<^verbatim>\<open>create_alert\<close> of the storage service appends one record
  (the identifier and the creation time the store assigns are left out).
\<close>

record alert =
  alert_user_id :: string
  alert_type :: string
  alert_message :: string
  alert_severity :: string
  alert_read :: bool

text \<open>
  The storage service as the agent sees it: the rows \<^verbatim>\<open>get_transactions_range\<close>
  returns for a user over the trailing 60 days at the time of the call, and the alerts
  written so far.
\<close>

record db =
  transactions_range :: "string \<Rightarrow> pydict list"
  stored_alerts :: "alert list"

definition get_transactions_range :: "db \<Rightarrow> string \<Rightarrow> pydict list" where
  "get_transactions_range d uid = transactions_range d uid"

definition create_alert :: "db \<Rightarrow> string \<Rightarrow> string \<Rightarrow> string \<Rightarrow> string \<Rightarrow> db" where
  "create_alert d uid kind msg sev =
     d\<lparr>stored_alerts := stored_alerts d @
          [\<lparr>alert_user_id = uid, alert_type = kind, alert_message = msg,
            alert_severity = sev, alert_read = False\<rparr>]\<rparr>"

record response =
  anomaly_detected :: bool
  risk_score :: real
  alerts :: "alert list"
  message :: "string option"
  details :: "check_result list option"

text \<open>The currency sign as the bytes the source file holds in front of the amount.\<close>

definition rupee :: string where
  "rupee = [CHR 0xC3, CHR 0xA2, CHR 0xE2, CHR 0x80, CHR 0x9A, CHR 0xC2, CHR 0xB9]"

text \<open>\<^verbatim>\<open>sep.join(xs)\<close>\<close>

fun join :: "string \<Rightarrow> string list \<Rightarrow> string" where
  "join sep [] = []"
| "join sep [x] = x"
| "join sep (x # y # zs) = x @ sep @ join sep (y # zs)"

text \<open>
  \<^verbatim>\<open>f"{v:.2f}"\<close>: defined on numbers; \<^verbatim>\<open>None\<close> and text refuse the format, a
  datetime reads it as a \<^verbatim>\<open>strftime\<close> pattern.
\<close>

fun render_2f :: "library \<Rightarrow> pyval \<Rightarrow> exn + string" where
  "render_2f lib (PNum x) = Inr (format_2f lib x)"
| "render_2f lib PNone = Inl TypeError"
| "render_2f lib (PStr _) = Inl ValueError"
| "render_2f lib (PDatetime _) = Inr ''.2f''"

text \<open>The clause one flagged check appends to \<^verbatim>\<open>messages\<close> (none for an unknown name).\<close>

definition risk_clause :: "library \<Rightarrow> check_result \<Rightarrow> exn + string list" where
  "risk_clause lib c =
     (if check c = ''amount'' then
        (case val c of
           None \<Rightarrow> Inl KeyError
         | Some v \<Rightarrow>
             (case render_2f lib v of
                Inl e \<Rightarrow> Inl e
              | Inr txt \<Rightarrow> Inr [''Unusual amount: '' @ rupee @ txt]))
      else if check c = ''quantity'' then
        (case val c of
           None \<Rightarrow> Inl KeyError
         | Some v \<Rightarrow> Inr [''Unusual quantity: '' @ str_val lib v])
      else if check c = ''timing'' then
        (case hour c of
           None \<Rightarrow> Inl KeyError
         | Some h \<Rightarrow> Inr [''Unusual timing: '' @ str_int lib h @ '':00''])
      else if check c = ''price'' then
        (case deviation_pct c of
           None \<Rightarrow> Inl KeyError
         | Some p \<Rightarrow> Inr [''Price deviation: '' @ format_1f lib p @ ''%''])
      else Inr [])"

fun risk_messages :: "library \<Rightarrow> check_result list \<Rightarrow> exn + string list" where
  "risk_messages lib [] = Inr []"
| "risk_messages lib (c # cs) =
     (case risk_clause lib c of
        Inl e \<Rightarrow> Inl e
      | Inr m \<Rightarrow>
          (case risk_messages lib cs of
             Inl e \<Rightarrow> Inl e
           | Inr ms \<Rightarrow> Inr (m @ ms)))"

definition generate_risk_message :: "library \<Rightarrow> check_result list \<Rightarrow> exn + string" where
  "generate_risk_message lib checks =
     (let anomalies = filter is_anomaly checks in
      if anomalies = [] then Inr ''Transaction appears normal''
      else
        (case risk_messages lib anomalies of
           Inl e \<Rightarrow> Inl e
         | Inr messages \<Rightarrow>
             Inr (''Suspicious transaction detected: '' @ join '', '' messages)))"

text \<open>
  \<^verbatim>\<open>analyze_transaction\<close>. The four detectors run in the order amount, quantity,
  timing, price. \<^verbatim>\<open>anomaly_count / len(checks)\<close> divides an integer from 0 to 4 by
  4, which floating point does without rounding. An exception of
  \<^verbatim>\<open>generate_risk_message\<close> is not caught and leaves the call before the alert is
  written; the storage service is the in-memory one above.
\<close>

definition analyze_transaction ::
  "risk_agent \<Rightarrow> library \<Rightarrow> numerics \<Rightarrow> db \<Rightarrow> string \<Rightarrow> pydict \<Rightarrow> pydict \<Rightarrow>
   exn + (response \<times> db)" where
  "analyze_transaction self lib num d uid transaction entities =
     (let resp = \<lparr>anomaly_detected = False, risk_score = 0, alerts = [],
                  message = None, details = None\<rparr>;
          historical = get_transactions_range d uid
      in if length historical < 10 then Inr (resp, d)
         else
           (let checks = [check_amount_anomaly self lib num transaction historical,
                          check_quantity_anomaly num transaction historical,
                          check_unusual_timing lib transaction historical,
                          check_price_deviation lib num transaction historical entities];
                anomaly_count = length (filter is_anomaly checks);
                resp1 = resp\<lparr>risk_score := real anomaly_count / real (length checks)\<rparr>
            in if 1 / 2 < risk_score resp1 then
                 (case generate_risk_message lib checks of
                    Inl e \<Rightarrow> Inl e
                  | Inr msg \<Rightarrow>
                      Inr (resp1\<lparr>anomaly_detected := True, message := Some msg,
                                 details := Some checks\<rparr>,
                           create_alert d uid ''fraud_risk'' msg ''high''))
               else Inr (resp1\<lparr>details := Some checks\<rparr>, d)))"

section \<open>Notions the statements use\<close>

text \<open>The number stored under a key, or the default when the key is absent or holds no number.\<close>

definition number_or :: "real \<Rightarrow> pydict \<Rightarrow> string \<Rightarrow> real" where
  "number_or dflt d k = (case d k of Some (PNum x) \<Rightarrow> x | _ \<Rightarrow> dflt)"

text \<open>The key holds a strictly positive number.\<close>

definition positive_at :: "string \<Rightarrow> pydict \<Rightarrow> bool" where
  "positive_at k d = (case d k of Some (PNum x) \<Rightarrow> 0 < x | _ \<Rightarrow> False)"

text \<open>The key is absent or holds a number.\<close>

definition number_or_absent :: "string \<Rightarrow> pydict \<Rightarrow> bool" where
  "number_or_absent k d = (case d k of None \<Rightarrow> True | Some (PNum _) \<Rightarrow> True | Some _ \<Rightarrow> False)"

text \<open>The key is absent or holds text.\<close>

definition text_or_absent :: "string \<Rightarrow> pydict \<Rightarrow> bool" where
  "text_or_absent k d = (case d k of None \<Rightarrow> True | Some (PStr _) \<Rightarrow> True | Some _ \<Rightarrow> False)"

text \<open>The historical transactions with a strictly positive amount, and with a strictly
  positive quantity, and the quantities of the latter.\<close>

definition positive_amount_rows :: "pydict list \<Rightarrow> pydict list" where
  "positive_amount_rows historical = filter (positive_at ''amount'') historical"

definition positive_quantity_rows :: "pydict list \<Rightarrow> pydict list" where
  "positive_quantity_rows historical = filter (positive_at ''quantity'') historical"

definition positive_amount_values :: "pydict list \<Rightarrow> real list" where
  "positive_amount_values historical =
     map (\<lambda>txn. number_or 0 txn ''amount'') (positive_amount_rows historical)"

definition positive_quantity_values :: "pydict list \<Rightarrow> real list" where
  "positive_quantity_values historical =
     map (\<lambda>txn. number_or 0 txn ''quantity'') (positive_quantity_rows historical)"

text \<open>The mean and the population standard deviation, without rounding.\<close>

definition arithmetic_mean :: "real list \<Rightarrow> real" where
  "arithmetic_mean xs = sum_list xs / real (length xs)"

definition population_std :: "real list \<Rightarrow> real" where
  "population_std xs = sqrt (arithmetic_mean (map (\<lambda>x. (x - arithmetic_mean xs)\<^sup>2) xs))"

text \<open>The z-score as the specification words it, without rounding.\<close>

definition spec_z_score :: "real \<Rightarrow> real list \<Rightarrow> real" where
  "spec_z_score current qs =
     (if population_std qs = 0 then 0
      else \<bar>current - arithmetic_mean qs\<bar> / population_std qs)"

text \<open>
  The z-score in the arithmetic of the runtime: the rounded quotient of the rounded
  difference, taken when the deviation numpy returns is positive.
\<close>

definition runtime_z_score :: "numerics \<Rightarrow> real \<Rightarrow> real list \<Rightarrow> real" where
  "runtime_z_score num current qs =
     (if 0 < np_std num qs
      then \<bar>float_div num (float_sub num current (np_mean num qs)) (np_std num qs)\<bar>
      else 0)"

text \<open>The hour of a transaction whose timestamp is ISO text that parses, and the hours of
  the historical transactions that have one.\<close>

definition parsed_hour :: "library \<Rightarrow> pydict \<Rightarrow> nat option" where
  "parsed_hour lib txn =
     (case txn ''created_at'' of
        Some (PStr s) \<Rightarrow> map_option dt_hour (fromisoformat lib s)
      | _ \<Rightarrow> None)"

definition seen_hours :: "library \<Rightarrow> pydict list \<Rightarrow> nat list" where
  "seen_hours lib historical = List.map_filter (parsed_hour lib) historical"

definition off_hours :: "nat \<Rightarrow> bool" where
  "off_hours h = (23 \<le> h \<or> h \<le> 5)"


text \<open>The historical transactions of an item (same name up to letter case) with a strictly
  positive quantity, and their prices per unit.\<close>

definition same_item :: "library \<Rightarrow> string \<Rightarrow> pydict \<Rightarrow> bool" where
  "same_item lib name txn =
     (case get txn ''item'' (PStr []) of
        PStr s \<Rightarrow> str_lower lib s = str_lower lib name
      | _ \<Rightarrow> False)"

definition item_rows :: "library \<Rightarrow> string \<Rightarrow> pydict list \<Rightarrow> pydict list" where
  "item_rows lib name historical =
     filter (\<lambda>txn. same_item lib name txn \<and> positive_at ''quantity'' txn) historical"

definition unit_price :: "numerics \<Rightarrow> pydict \<Rightarrow> real" where
  "unit_price num txn = float_div num (number_or 0 txn ''amount'') (number_or 0 txn ''quantity'')"

definition unit_prices :: "library \<Rightarrow> numerics \<Rightarrow> string \<Rightarrow> pydict list \<Rightarrow> real list" where
  "unit_prices lib num name historical = map (unit_price num) (item_rows lib name historical)"

text \<open>
  A historical transaction the price detector can read when it looks for an item: the
  item is text or absent; if it is the item looked for, the quantity is a number or absent;
  and if that quantity is positive, the amount is a number or absent.
\<close>

definition price_row_ok :: "library \<Rightarrow> string \<Rightarrow> pydict \<Rightarrow> bool" where
  "price_row_ok lib name txn \<longleftrightarrow>
     text_or_absent ''item'' txn \<and>
     (same_item lib name txn \<longrightarrow>
        number_or_absent ''quantity'' txn \<and>
        (positive_at ''quantity'' txn \<longrightarrow> number_or_absent ''amount'' txn))"

text \<open>The deviation as the specification words it, without rounding.\<close>

definition spec_deviation :: "real \<Rightarrow> real \<Rightarrow> real" where
  "spec_deviation current mean_p =
     (if mean_p = 0 then 0 else \<bar>current - mean_p\<bar> / mean_p)"

text \<open>The words that open the clause of each detector in the explanation.\<close>

definition clause_label :: "string \<Rightarrow> string" where
  "clause_label name =
     (if name = ''amount'' then ''Unusual amount: ''
      else if name = ''quantity'' then ''Unusual quantity: ''
      else if name = ''timing'' then ''Unusual timing: ''
      else if name = ''price'' then ''Price deviation: ''
      else [])"

section \<open>Sample data\<close>

text \<open>
  Stand-ins for the examples. The numbers of the examples, their means and their
  deviations are small integers, on which floating-point arithmetic does not round: the
  sample arithmetic is the exact one. The sample library has an outlier model that flags a
  sample above twice the mean of the data it was fitted on and converts the one text
  numeral that occurs, the ISO parser on the three timestamps that occur, the lower case
  of the ASCII letters, and renderers that do not look at their argument.
\<close>

definition sample_numerics :: numerics where
  "sample_numerics =
     \<lparr>np_mean = arithmetic_mean, np_std = population_std,
      float_sub = (\<lambda>a b. a - b), float_div = (\<lambda>a b. a / b), float_mul = (\<lambda>a b. a * b)\<rparr>"

definition lower_char :: "char \<Rightarrow> char" where
  "lower_char c =
     (case map_of (zip ''ABCDEFGHIJKLMNOPQRSTUVWXYZ'' ''abcdefghijklmnopqrstuvwxyz'') c of
        None \<Rightarrow> c | Some l \<Rightarrow> l)"

definition sample_predict :: "real list \<Rightarrow> pyval \<Rightarrow> exn + int" where
  "sample_predict X v =
     (case v of
        PNum x \<Rightarrow> Inr (if 2 * arithmetic_mean X < x then - 1 else 1)
      | PStr s \<Rightarrow>
          (case map_of [(''500'', 500)] s of
             None \<Rightarrow> Inl ValueError
           | Some x \<Rightarrow> Inr (if 2 * arithmetic_mean X < x then - 1 else 1))
      | PNone \<Rightarrow> Inr 1
      | PDatetime _ \<Rightarrow> Inl TypeError)"

definition sample_library :: library where
  "sample_library =
     \<lparr>IsolationForest = (\<lambda>contamination random_state X. Inr (sample_predict X)),
      fromisoformat =
        map_of [(''2024-03-01T09:30:00'', Datetime 2024 3 1 9 30 0),
                (''2024-03-02T14:00:00'', Datetime 2024 3 2 14 0 0),
                (''2024-03-03T02:15:00'', Datetime 2024 3 3 2 15 0)],
      str_lower = map lower_char,
      format_2f = (\<lambda>x. ''#.##''),
      format_1f = (\<lambda>x. ''#.#''),
      str_val = (\<lambda>v. ''#''),
      str_int = (\<lambda>n. ''#'')\<rparr>"

definition row :: "string \<Rightarrow> real \<Rightarrow> real \<Rightarrow> string \<Rightarrow> pydict" where
  "row name q a ts =
     [''item'' \<mapsto> PStr name, ''quantity'' \<mapsto> PNum q, ''amount'' \<mapsto> PNum a,
      ''created_at'' \<mapsto> PStr ts]"

definition morning :: pydict where
  "morning = row ''rice'' 9 90 ''2024-03-01T09:30:00''"

definition afternoon :: pydict where
  "afternoon = row ''Rice'' 11 110 ''2024-03-02T14:00:00''"

text \<open>Ten rows: quantities of mean 10 and deviation 1, amounts of mean 100, price 10.\<close>

definition sample_history :: "pydict list" where
  "sample_history =
     [morning, afternoon, morning, afternoon, morning,
      afternoon, morning, afternoon, morning, afternoon]"

definition sample_db :: db where
  "sample_db = \<lparr>transactions_range = (\<lambda>uid. sample_history), stored_alerts = []\<rparr>"

definition empty_db :: db where
  "empty_db = \<lparr>transactions_range = (\<lambda>uid. []), stored_alerts = []\<rparr>"

text \<open>A library whose outlier model cannot be fitted.\<close>

definition failing_library :: library where
  "failing_library =
     sample_library\<lparr>IsolationForest := (\<lambda>contamination random_state X. Inl ValueError)\<rparr>"

text \<open>A night-time sale of 100 units for 500.\<close>

definition night_sale :: pydict where
  "night_sale = row ''rice'' 100 500 ''2024-03-03T02:15:00''"

definition night_entities :: pydict where
  "night_entities = [''item'' \<mapsto> PStr ''rice'', ''quantity'' \<mapsto> PNum 100, ''amount'' \<mapsto> PNum 500]"

text \<open>The same sale with the amount as text.\<close>

definition text_amount_sale :: pydict where
  "text_amount_sale = night_sale(''amount'' \<mapsto> PStr ''500'')"

text \<open>A sale recorded without a quantity.\<close>

definition bare_sale :: pydict where
  "bare_sale = [''item'' \<mapsto> PStr ''rice'', ''amount'' \<mapsto> PNum 90,
                ''created_at'' \<mapsto> PStr ''2024-03-01T09:30:00'']"

text \<open>
  A stored transaction for which the extractor found neither an item nor a quantity:
  \<^verbatim>\<open>create_transaction\<close> stores \<^verbatim>\<open>entities.get('item')\<close> and
  \<^verbatim>\<open>entities.get('quantity', 0)\<close>, which are \<^verbatim>\<open>None\<close> when the extractor
  answers null.
\<close>

definition unfilled :: pydict where
  "unfilled = [''item'' \<mapsto> PNone, ''quantity'' \<mapsto> PNone, ''amount'' \<mapsto> PNum 50,
               ''created_at'' \<mapsto> PStr ''2024-03-01T09:30:00'']"






text \<open>A transaction whose timestamp is no ISO text.\<close>

definition misdated_sale :: pydict where
  "misdated_sale = [''item'' \<mapsto> PStr ''rice'', ''quantity'' \<mapsto> PNum 9, ''amount'' \<mapsto> PNum 90,
                    ''created_at'' \<mapsto> PStr ''yesterday'']"

text \<open>Entities naming rice with a given quantity.\<close>

definition rice_entities :: "real \<Rightarrow> pydict" where
  "rice_entities q = [''item'' \<mapsto> PStr ''Rice'', ''quantity'' \<mapsto> PNum q]"

text \<open>A refund: one unit of rice for a negative amount.\<close>

definition refund :: pydict where
  "refund = row ''rice'' 1 (- 10) ''2024-03-01T09:30:00''"

text \<open>A sale of another item whose quantity was not found.\<close>

definition wheat_sale :: pydict where
  "wheat_sale = [''item'' \<mapsto> PStr ''wheat'', ''quantity'' \<mapsto> PNone, ''amount'' \<mapsto> PNum 40,
                 ''created_at'' \<mapsto> PStr ''2024-03-01T09:30:00'']"

text \<open>Ten rows of one and the same quantity.\<close>

definition flat_history :: "pydict list" where
  "flat_history =
     [morning, morning, morning, morning, morning,
      morning, morning, morning, morning, morning]"

section \<open>Facts about detector results\<close>

lemma not_anomalous_simps [simp]:
  "check (not_anomalous n) = n" "is_anomaly (not_anomalous n) = False"
  "error (not_anomalous n) = None" "val (not_anomalous n) = None"
  "mean (not_anomalous n) = None" "std (not_anomalous n) = None"
  "z_score (not_anomalous n) = None" "hour (not_anomalous n) = None"
  "typical_hours (not_anomalous n) = None" "current_price (not_anomalous n) = None"
  "mean_price (not_anomalous n) = None" "deviation_pct (not_anomalous n) = None"
  by (simp_all add: not_anomalous_def)

lemma failed_simps [simp]:
  "check (failed n e) = n" "is_anomaly (failed n e) = False"
  "error (failed n e) = Some e" "val (failed n e) = None"
  "mean (failed n e) = None" "std (failed n e) = None"
  "z_score (failed n e) = None" "hour (failed n e) = None"
  "typical_hours (failed n e) = None" "current_price (failed n e) = None"
  "mean_price (failed n e) = None" "deviation_pct (failed n e) = None"
  by (simp_all add: failed_def)

lemma absorb_Inl: "body = Inl e \<Longrightarrow> absorb name body = failed name e"
  by (simp add: absorb_def)

lemma amount_name: "check (check_amount_anomaly self lib num t h) = ''amount''"
  by (simp add: check_amount_anomaly_def check_amount_anomaly_body_def absorb_def
      split: sum.splits)

lemma quantity_name: "check (check_quantity_anomaly num t h) = ''quantity''"
  by (simp add: check_quantity_anomaly_def check_quantity_anomaly_body_def absorb_def Let_def
      split: sum.splits)

lemma timing_name: "check (check_unusual_timing lib t h) = ''timing''"
  by (simp add: check_unusual_timing_def check_unusual_timing_body_def absorb_def Let_def
      split: sum.splits)

lemma price_name: "check (check_price_deviation lib num t h ents) = ''price''"
  by (simp add: check_price_deviation_def check_price_deviation_body_def absorb_def Let_def
      split: sum.splits)

text \<open>
  A flagged result carries the evidence its clause of the explanation reads. The value of
  a flagged amount is the amount of the transaction as the dictionary holds it, and the
  detector did not fail.
\<close>

lemma amount_flagged:
  "is_anomaly (check_amount_anomaly self lib num t h) \<Longrightarrow>
   \<exists>v. t ''amount'' = Some v \<and> val (check_amount_anomaly self lib num t h) = Some v \<and>
       check_amount_anomaly_body self lib num t h =
         Inr (check_amount_anomaly self lib num t h)"
  by (auto simp add: check_amount_anomaly_def check_amount_anomaly_body_def absorb_def
      getitem_def split: sum.splits if_splits option.splits)

lemma quantity_flagged_val:
  "is_anomaly (check_quantity_anomaly num t h) \<Longrightarrow>
   \<exists>v. val (check_quantity_anomaly num t h) = Some v"
  by (auto simp add: check_quantity_anomaly_def check_quantity_anomaly_body_def absorb_def Let_def
      split: sum.splits if_splits)

lemma timing_flagged_hour:
  "is_anomaly (check_unusual_timing lib t h) \<Longrightarrow>
   \<exists>v. hour (check_unusual_timing lib t h) = Some v"
  by (auto simp add: check_unusual_timing_def check_unusual_timing_body_def absorb_def Let_def
      split: sum.splits if_splits)

lemma price_flagged_pct:
  "is_anomaly (check_price_deviation lib num t h ents) \<Longrightarrow>
   \<exists>v. deviation_pct (check_price_deviation lib num t h ents) = Some v"
  by (auto simp add: check_price_deviation_def check_price_deviation_body_def absorb_def Let_def
      split: sum.splits if_splits)

lemma amount_clause:
  assumes "is_anomaly (check_amount_anomaly self lib num t h)" and "t ''amount'' = Some v"
  shows "risk_clause lib (check_amount_anomaly self lib num t h) =
           (case render_2f lib v of
              Inl e \<Rightarrow> Inl e
            | Inr txt \<Rightarrow> Inr [''Unusual amount: '' @ rupee @ txt])"
  using amount_flagged [OF assms(1)] assms(2)
  by (auto simp add: risk_clause_def amount_name)

lemma quantity_clause:
  "is_anomaly (check_quantity_anomaly num t h) \<Longrightarrow>
   \<exists>m. risk_clause lib (check_quantity_anomaly num t h) = Inr [m]"
  using quantity_flagged_val [of num t h]
  by (auto simp add: risk_clause_def quantity_name)

lemma timing_clause:
  "is_anomaly (check_unusual_timing lib t h) \<Longrightarrow>
   \<exists>m. risk_clause lib (check_unusual_timing lib t h) = Inr [m]"
  using timing_flagged_hour [of lib t h]
  by (auto simp add: risk_clause_def timing_name)

lemma price_clause:
  "is_anomaly (check_price_deviation lib num t h ents) \<Longrightarrow>
   \<exists>m. risk_clause lib' (check_price_deviation lib num t h ents) = Inr [m]"
  using price_flagged_pct [of lib num t h ents]
  by (auto simp add: risk_clause_def price_name)

lemma other_clauses:
  "list_all (\<lambda>c. \<exists>m. risk_clause lib c = Inr [m])
     (filter is_anomaly
        [check_quantity_anomaly num t h, check_unusual_timing lib t h,
         check_price_deviation lib num t h ents])"
  by (simp add: quantity_clause timing_clause price_clause)

section \<open>The explanation\<close>

lemma risk_messages_ok:
  "list_all (\<lambda>c. \<exists>m. risk_clause lib c = Inr [m]) cs \<Longrightarrow>
   \<exists>ms. risk_messages lib cs = Inr ms \<and>
        list_all2 (\<lambda>c m. risk_clause lib c = Inr [m]) cs ms"
  by (induction cs) auto

lemma risk_clause_label:
  "risk_clause lib c = Inr [m] \<Longrightarrow> \<exists>rest. m = clause_label (check c) @ rest"
  by (auto simp add: risk_clause_def clause_label_def split: if_splits option.splits sum.splits)

lemma generate_normal:
  "filter is_anomaly cs = [] \<Longrightarrow> generate_risk_message lib cs = Inr ''Transaction appears normal''"
  by (simp add: generate_risk_message_def Let_def)

text \<open>
  When the clauses of the checks after the first can be built, the explanation fails
  exactly when the first check is flagged and its clause cannot be built.
\<close>

lemma generate_Inl:
  assumes "list_all (\<lambda>c. \<exists>m. risk_clause lib c = Inr [m]) (filter is_anomaly cs)"
  shows "generate_risk_message lib (a # cs) = Inl e \<longleftrightarrow>
           is_anomaly a \<and> risk_clause lib a = Inl e"
proof -
  from risk_messages_ok [OF assms] obtain ms where
    ms: "risk_messages lib (filter is_anomaly cs) = Inr ms" by blast
  show ?thesis
    by (cases "is_anomaly a")
       (auto simp add: generate_risk_message_def Let_def ms split: sum.splits)
qed

lemma generate_clauses:
  assumes "list_all (\<lambda>c. \<exists>m. risk_clause lib c = Inr [m]) (filter is_anomaly cs)"
    and "filter is_anomaly cs \<noteq> []"
  shows "\<exists>clauses.
           list_all2 (\<lambda>c m. risk_clause lib c = Inr [m] \<and>
                            (\<exists>rest. m = clause_label (check c) @ rest))
             (filter is_anomaly cs) clauses \<and>
           generate_risk_message lib cs =
             Inr (''Suspicious transaction detected: '' @ join '', '' clauses)"
proof -
  from risk_messages_ok [OF assms(1)]
  obtain ms where ms: "risk_messages lib (filter is_anomaly cs) = Inr ms"
    and all: "list_all2 (\<lambda>c m. risk_clause lib c = Inr [m]) (filter is_anomaly cs) ms"
    by blast
  from all have "list_all2 (\<lambda>c m. risk_clause lib c = Inr [m] \<and>
                            (\<exists>rest. m = clause_label (check c) @ rest))
             (filter is_anomaly cs) ms"
    by (rule list_all2_mono) (simp add: risk_clause_label)
  moreover from assms(2) ms have "generate_risk_message lib cs =
             Inr (''Suspicious transaction detected: '' @ join '', '' ms)"
    by (simp add: generate_risk_message_def Let_def)
  ultimately show ?thesis by blast
qed

text \<open>
  On the results of the four detectors: the explanation fails exactly when the amount is
  flagged and its value cannot be rendered with two decimals; otherwise every flagged
  check has its clause.
\<close>

lemma explanation_fails:
  "generate_risk_message lib
     [check_amount_anomaly self lib num t h, check_quantity_anomaly num t h,
      check_unusual_timing lib t h, check_price_deviation lib num t h ents] = Inl e \<longleftrightarrow>
   is_anomaly (check_amount_anomaly self lib num t h) \<and>
   (\<exists>v. t ''amount'' = Some v \<and> render_2f lib v = Inl e)"
proof -
  have "generate_risk_message lib
     [check_amount_anomaly self lib num t h, check_quantity_anomaly num t h,
      check_unusual_timing lib t h, check_price_deviation lib num t h ents] = Inl e \<longleftrightarrow>
    is_anomaly (check_amount_anomaly self lib num t h) \<and>
    risk_clause lib (check_amount_anomaly self lib num t h) = Inl e"
    by (rule generate_Inl [OF other_clauses])
  also have "\<dots> \<longleftrightarrow> is_anomaly (check_amount_anomaly self lib num t h) \<and>
     (\<exists>v. t ''amount'' = Some v \<and> render_2f lib v = Inl e)"
  proof (cases "is_anomaly (check_amount_anomaly self lib num t h)")
    case False
    then show ?thesis by simp
  next
    case True
    from amount_flagged [OF True] obtain v where v: "t ''amount'' = Some v" by blast
    from amount_clause [OF True v] v True show ?thesis
      by (auto split: sum.splits)
  qed
  finally show ?thesis .
qed

lemma explanation_clauses:
  assumes "checks = [check_amount_anomaly self lib num t h, check_quantity_anomaly num t h,
      check_unusual_timing lib t h, check_price_deviation lib num t h ents]"
    and "generate_risk_message lib checks = Inr msg"
    and "filter is_anomaly checks \<noteq> []"
  shows "\<exists>clauses.
           list_all2 (\<lambda>c m. risk_clause lib c = Inr [m] \<and>
                            (\<exists>rest. m = clause_label (check c) @ rest))
             (filter is_anomaly checks) clauses \<and>
           msg = ''Suspicious transaction detected: '' @ join '', '' clauses"
proof -
  have ok: "list_all (\<lambda>c. \<exists>m. risk_clause lib c = Inr [m]) (filter is_anomaly checks)"
  proof (cases "is_anomaly (check_amount_anomaly self lib num t h)")
    case False
    with other_clauses [of lib num t h ents] show ?thesis by (simp add: assms(1))
  next
    case True
    from amount_flagged [OF True] obtain v where v: "t ''amount'' = Some v" by blast
    have "\<exists>m. risk_clause lib (check_amount_anomaly self lib num t h) = Inr [m]"
    proof (cases "render_2f lib v")
      case (Inl e)
      with True v have "generate_risk_message lib checks = Inl e"
        unfolding assms(1) explanation_fails by blast
      with assms(2) show ?thesis by simp
    next
      case (Inr rendered)
      with amount_clause [OF True v] show ?thesis by simp
    qed
    with True other_clauses [of lib num t h ents] show ?thesis by (simp add: assms(1))
  qed
  from generate_clauses [OF ok assms(3)] assms(2) show ?thesis by auto
qed

lemma explanation_of_number:
  assumes "t ''amount'' = None \<or> (\<exists>x. t ''amount'' = Some (PNum x))"
  shows "\<exists>msg. generate_risk_message lib
     [check_amount_anomaly self lib num t h, check_quantity_anomaly num t h,
      check_unusual_timing lib t h, check_price_deviation lib num t h ents] = Inr msg"
proof (cases "generate_risk_message lib
     [check_amount_anomaly self lib num t h, check_quantity_anomaly num t h,
      check_unusual_timing lib t h, check_price_deviation lib num t h ents]")
  case (Inr msg)
  then show ?thesis by blast
next
  case (Inl e)
  then obtain v where "t ''amount'' = Some v" "render_2f lib v = Inl e"
    unfolding explanation_fails by blast
  with assms show ?thesis by auto
qed

lemma sample_range [simp]: "get_transactions_range sample_db uid = sample_history"
  by (simp add: get_transactions_range_def sample_db_def)

lemma empty_range [simp]: "get_transactions_range empty_db uid = []"
  by (simp add: get_transactions_range_def empty_db_def)

lemma length_sample_history [simp]: "length sample_history = 10"
  by (simp add: sample_history_def)

lemma sample_numerics_simps [simp]:
  "np_mean sample_numerics = arithmetic_mean" "np_std sample_numerics = population_std"
  "float_sub sample_numerics a b = a - b" "float_div sample_numerics a b = a / b"
  "float_mul sample_numerics a b = a * b"
  by (simp_all add: sample_numerics_def)

section \<open>The amount detector\<close>

lemma positive_amounts_Inr:
  "positive_amounts h = Inr as \<Longrightarrow> as = positive_amount_values h"
proof (induction h arbitrary: as)
  case Nil
  then show ?case by (simp add: positive_amount_values_def positive_amount_rows_def)
next
  case (Cons txn rest)
  then show ?case
    by (auto simp add: positive_amount_values_def positive_amount_rows_def getitem_def
        positive_at_def number_or_def split: option.splits pyval.splits sum.splits if_splits)
qed

lemma positive_amounts_typed:
  "list_all (\<lambda>txn. \<exists>a. txn ''amount'' = Some (PNum a)) h \<Longrightarrow>
   positive_amounts h = Inr (positive_amount_values h)"
  by (induction h)
     (auto simp add: positive_amount_values_def positive_amount_rows_def getitem_def
        positive_at_def number_or_def)

lemma positive_amounts_untyped:
  "\<not> list_all (\<lambda>txn. \<exists>a. txn ''amount'' = Some (PNum a)) h \<Longrightarrow>
   \<exists>e. positive_amounts h = Inl e"
proof (induction h)
  case Nil
  then show ?case by simp
next
  case (Cons txn rest)
  show ?case
  proof (cases "\<exists>a. txn ''amount'' = Some (PNum a)")
    case False
    then show ?thesis
      by (auto simp add: getitem_def split: option.splits pyval.splits)
  next
    case True
    with Cons.prems have "\<not> list_all (\<lambda>txn. \<exists>a. txn ''amount'' = Some (PNum a)) rest"
      by simp
    from Cons.IH [OF this] True show ?thesis
      by (auto simp add: getitem_def)
  qed
qed

lemma length_positive_amount_values [simp]:
  "length (positive_amount_values h) = length (positive_amount_rows h)"
  by (simp add: positive_amount_values_def)

lemma amount_few:
  "length (positive_amount_rows h) < 10 \<Longrightarrow>
   is_anomaly (check_amount_anomaly self lib num t h) = False \<and>
   val (check_amount_anomaly self lib num t h) = None \<and>
   mean (check_amount_anomaly self lib num t h) = None \<and>
   std (check_amount_anomaly self lib num t h) = None"
  by (auto simp add: check_amount_anomaly_def check_amount_anomaly_body_def absorb_def
      split: sum.splits dest!: positive_amounts_Inr)

lemma amount_few_typed:
  "length (positive_amount_rows h) < 10 \<Longrightarrow>
   list_all (\<lambda>txn. \<exists>a. txn ''amount'' = Some (PNum a)) h \<Longrightarrow>
   check_amount_anomaly self lib num t h = not_anomalous ''amount''"
  by (simp add: check_amount_anomaly_def check_amount_anomaly_body_def absorb_def
      positive_amounts_typed)

lemma amount_same_model:
  "(\<And>X. IsolationForest lib (ANOMALY_THRESHOLD cfg) 42 X =
         IsolationForest lib' (ANOMALY_THRESHOLD cfg) 42 X) \<Longrightarrow>
   check_amount_anomaly (RiskAgent_init cfg) lib num t h =
   check_amount_anomaly (RiskAgent_init cfg) lib' num t h"
  by (simp add: check_amount_anomaly_def check_amount_anomaly_body_def RiskAgent_init_def
      split: sum.splits)

lemma amount_result:
  "list_all (\<lambda>txn. \<exists>a. txn ''amount'' = Some (PNum a)) h \<Longrightarrow>
   10 \<le> length (positive_amount_rows h) \<Longrightarrow>
   IsolationForest lib (anomaly_threshold self) 42 (positive_amount_values h) = Inr predict \<Longrightarrow>
   t ''amount'' = Some v \<Longrightarrow> predict v = Inr p \<Longrightarrow>
   check_amount_anomaly self lib num t h =
     (not_anomalous ''amount'')
       \<lparr>is_anomaly := (p = - 1), val := Some v,
        mean := Some (np_mean num (positive_amount_values h)),
        std := Some (np_std num (positive_amount_values h))\<rparr>"
  by (simp add: check_amount_anomaly_def check_amount_anomaly_body_def absorb_def
      positive_amounts_typed getitem_def)

lemma amount_runs:
  "list_all (\<lambda>txn. \<exists>a. txn ''amount'' = Some (PNum a)) h \<Longrightarrow>
   10 \<le> length (positive_amount_rows h) \<Longrightarrow>
   IsolationForest lib (ANOMALY_THRESHOLD cfg) 42 (positive_amount_values h) = Inr predict \<Longrightarrow>
   t ''amount'' = Some v \<Longrightarrow> predict v = Inr p \<Longrightarrow>
   is_anomaly (check_amount_anomaly (RiskAgent_init cfg) lib num t h) = (p = - 1)"
  by (simp add: check_amount_anomaly_def check_amount_anomaly_body_def RiskAgent_init_def
      absorb_def positive_amounts_typed getitem_def)

lemma amount_error:
  assumes "\<not> list_all (\<lambda>txn. \<exists>a. txn ''amount'' = Some (PNum a)) h"
  shows "is_anomaly (check_amount_anomaly self lib num t h) = False \<and>
         error (check_amount_anomaly self lib num t h) \<noteq> None"
proof -
  from positive_amounts_untyped [OF assms] obtain e where "positive_amounts h = Inl e" by blast
  then show ?thesis
    by (simp add: check_amount_anomaly_def check_amount_anomaly_body_def absorb_def)
qed

lemma amount_fit_fails:
  "list_all (\<lambda>txn. \<exists>a. txn ''amount'' = Some (PNum a)) h \<Longrightarrow>
   10 \<le> length (positive_amount_rows h) \<Longrightarrow>
   IsolationForest lib (anomaly_threshold self) 42 (positive_amount_values h) = Inl e \<Longrightarrow>
   check_amount_anomaly self lib num t h = failed ''amount'' e"
  by (simp add: check_amount_anomaly_def check_amount_anomaly_body_def absorb_def
      positive_amounts_typed)

lemma sample_amount_values:
  "positive_amount_values sample_history = [90, 110, 90, 110, 90, 110, 90, 110, 90, 110]"
  by (simp add: positive_amount_values_def positive_amount_rows_def sample_history_def
      morning_def afternoon_def row_def positive_at_def number_or_def)

lemma sample_amount_rows: "length (positive_amount_rows sample_history) = 10"
  using sample_amount_values length_positive_amount_values [of sample_history] by simp

lemma sample_amount_mean: "arithmetic_mean [90, 110, 90, 110, 90, 110, 90, 110, 90, 110] = 100"
  by (simp add: arithmetic_mean_def)

lemma sample_typed_a: "list_all (\<lambda>txn. \<exists>a. txn ''amount'' = Some (PNum a)) sample_history"
  by (simp add: sample_history_def morning_def afternoon_def row_def)

lemma sample_forest: "IsolationForest sample_library c s X = Inr (sample_predict X)"
  by (simp add: sample_library_def)

lemma failing_forest: "IsolationForest failing_library c s X = Inl ValueError"
  by (simp add: failing_library_def)

lemma sample_predict_500:
  "sample_predict (positive_amount_values sample_history) (PNum 500) = Inr (- 1)"
  "sample_predict (positive_amount_values sample_history) (PStr ''500'') = Inr (- 1)"
  by (simp_all add: sample_predict_def sample_amount_values sample_amount_mean)

lemma night_amount: "night_sale ''amount'' = Some (PNum 500)"
  by (simp add: night_sale_def row_def)

lemma text_amount: "text_amount_sale ''amount'' = Some (PStr ''500'')"
  by (simp add: text_amount_sale_def)

lemma sample_amount_result:
  "check_amount_anomaly (RiskAgent_init Config) sample_library num night_sale sample_history =
     (not_anomalous ''amount'')
       \<lparr>is_anomaly := True, val := Some (PNum 500),
        mean := Some (np_mean num (positive_amount_values sample_history)),
        std := Some (np_std num (positive_amount_values sample_history))\<rparr>"
  "check_amount_anomaly (RiskAgent_init Config) sample_library num text_amount_sale
     sample_history =
     (not_anomalous ''amount'')
       \<lparr>is_anomaly := True, val := Some (PStr ''500''),
        mean := Some (np_mean num (positive_amount_values sample_history)),
        std := Some (np_std num (positive_amount_values sample_history))\<rparr>"
proof -
  have "check_amount_anomaly (RiskAgent_init Config) sample_library num night_sale
      sample_history =
     (not_anomalous ''amount'')
       \<lparr>is_anomaly := ((- 1 :: int) = - 1), val := Some (PNum 500),
        mean := Some (np_mean num (positive_amount_values sample_history)),
        std := Some (np_std num (positive_amount_values sample_history))\<rparr>"
    by (rule amount_result
          [where predict = "sample_predict (positive_amount_values sample_history)"])
       (simp_all add: sample_typed_a sample_amount_rows sample_forest night_amount
          sample_predict_500)
  then show "check_amount_anomaly (RiskAgent_init Config) sample_library num night_sale
      sample_history =
     (not_anomalous ''amount'')
       \<lparr>is_anomaly := True, val := Some (PNum 500),
        mean := Some (np_mean num (positive_amount_values sample_history)),
        std := Some (np_std num (positive_amount_values sample_history))\<rparr>"
    by simp
  have "check_amount_anomaly (RiskAgent_init Config) sample_library num text_amount_sale
      sample_history =
     (not_anomalous ''amount'')
       \<lparr>is_anomaly := ((- 1 :: int) = - 1), val := Some (PStr ''500''),
        mean := Some (np_mean num (positive_amount_values sample_history)),
        std := Some (np_std num (positive_amount_values sample_history))\<rparr>"
    by (rule amount_result
          [where predict = "sample_predict (positive_amount_values sample_history)"])
       (simp_all add: sample_typed_a sample_amount_rows sample_forest text_amount
          sample_predict_500)
  then show "check_amount_anomaly (RiskAgent_init Config) sample_library num text_amount_sale
      sample_history =
     (not_anomalous ''amount'')
       \<lparr>is_anomaly := True, val := Some (PStr ''500''),
        mean := Some (np_mean num (positive_amount_values sample_history)),
        std := Some (np_std num (positive_amount_values sample_history))\<rparr>"
    by simp
qed

text \<open>
  C8. With fewer than 10 historical transactions of strictly positive amount the amount
  detector does not flag and returns no value, mean or deviation (and, when every
  historical amount is a number, exactly the bare result). The agent takes the contamination
  rate from the configuration, whose value is 0.15: the result depends on the outlier model
  only through the model built with that rate (and seed 42), and when the detector runs the
  flag is that model's verdict on the current amount.
\<close>

theorem amount_insufficient_data_and_contamination:
  "(length (positive_amount_rows historical) < 10 \<longrightarrow>
      is_anomaly (check_amount_anomaly self lib num transaction historical) = False \<and>
      val (check_amount_anomaly self lib num transaction historical) = None \<and>
      mean (check_amount_anomaly self lib num transaction historical) = None \<and>
      std (check_amount_anomaly self lib num transaction historical) = None) \<and>
   (length (positive_amount_rows historical) < 10 \<and>
    list_all (\<lambda>txn. \<exists>a. txn ''amount'' = Some (PNum a)) historical \<longrightarrow>
      check_amount_anomaly self lib num transaction historical = not_anomalous ''amount'') \<and>
   anomaly_threshold (RiskAgent_init cfg) = ANOMALY_THRESHOLD cfg \<and>
   ANOMALY_THRESHOLD Config = 15 / 100 \<and>
   ((\<forall>X. IsolationForest lib (ANOMALY_THRESHOLD cfg) 42 X =
          IsolationForest lib' (ANOMALY_THRESHOLD cfg) 42 X) \<longrightarrow>
      check_amount_anomaly (RiskAgent_init cfg) lib num transaction historical =
      check_amount_anomaly (RiskAgent_init cfg) lib' num transaction historical) \<and>
   (list_all (\<lambda>txn. \<exists>a. txn ''amount'' = Some (PNum a)) historical \<and>
    10 \<le> length (positive_amount_rows historical) \<and>
    IsolationForest lib (ANOMALY_THRESHOLD cfg) 42 (positive_amount_values historical) = Inr predict \<and>
    transaction ''amount'' = Some v \<and> predict v = Inr p \<longrightarrow>
      is_anomaly (check_amount_anomaly (RiskAgent_init cfg) lib num transaction historical) =
        (p = - 1))"
proof -
  have "anomaly_threshold (RiskAgent_init cfg) = ANOMALY_THRESHOLD cfg"
    by (simp add: RiskAgent_init_def)
  moreover have "ANOMALY_THRESHOLD Config = 15 / 100"
    by (simp add: Config_def)
  ultimately show ?thesis
    using amount_few [of historical self lib num transaction]
      amount_few_typed [of historical self lib num transaction]
      amount_same_model [of lib cfg lib' num transaction historical]
      amount_runs [of historical lib cfg predict transaction v p num]
    by blast
qed

theorem amount_insufficient_data_and_contamination_witness:
  "check_amount_anomaly (RiskAgent_init Config) sample_library sample_numerics night_sale [] =
     not_anomalous ''amount'' \<and>
   anomaly_threshold (RiskAgent_init Config) = 15 / 100 \<and>
   is_anomaly (check_amount_anomaly (RiskAgent_init Config) sample_library sample_numerics
     night_sale sample_history) \<and>
   check_amount_anomaly (RiskAgent_init Config) sample_library sample_numerics night_sale
     sample_history =
     check_amount_anomaly (RiskAgent_init Config) (sample_library\<lparr>str_int := (\<lambda>n. ''h'')\<rparr>)
       sample_numerics night_sale sample_history"
proof -
  note few = amount_insufficient_data_and_contamination
    [where historical = "[]" and self = "RiskAgent_init Config" and lib = sample_library
       and num = sample_numerics and transaction = night_sale and cfg = Config]
  note run = amount_insufficient_data_and_contamination
    [where historical = sample_history and lib = sample_library and cfg = Config
       and num = sample_numerics and transaction = night_sale and v = "PNum 500"
       and p = "- 1" and lib' = "sample_library\<lparr>str_int := (\<lambda>n. ''h'')\<rparr>"
       and predict = "sample_predict (positive_amount_values sample_history)"]
  have h1: "length (positive_amount_rows []) < 10 \<and>
            list_all (\<lambda>txn. \<exists>a. txn ''amount'' = Some (PNum a)) []"
    by (simp add: positive_amount_rows_def)
  have h2: "list_all (\<lambda>txn. \<exists>a. txn ''amount'' = Some (PNum a)) sample_history \<and>
    10 \<le> length (positive_amount_rows sample_history) \<and>
    IsolationForest sample_library (ANOMALY_THRESHOLD Config) 42
      (positive_amount_values sample_history) =
      Inr (sample_predict (positive_amount_values sample_history)) \<and>
    night_sale ''amount'' = Some (PNum 500) \<and>
    sample_predict (positive_amount_values sample_history) (PNum 500) = Inr (- 1)"
    by (simp add: sample_typed_a sample_amount_rows sample_forest night_amount
        sample_predict_500)
  have h3: "\<forall>X. IsolationForest sample_library (ANOMALY_THRESHOLD Config) 42 X =
      IsolationForest (sample_library\<lparr>str_int := (\<lambda>n. ''h'')\<rparr>) (ANOMALY_THRESHOLD Config) 42 X"
    by simp
  from few h1 have "check_amount_anomaly (RiskAgent_init Config) sample_library sample_numerics
     night_sale [] = not_anomalous ''amount''" by blast
  moreover from few have "anomaly_threshold (RiskAgent_init Config) = 15 / 100" by simp
  moreover from run h2 have "is_anomaly (check_amount_anomaly (RiskAgent_init Config)
     sample_library sample_numerics night_sale sample_history)" by blast
  moreover from run h3 have "check_amount_anomaly (RiskAgent_init Config) sample_library
      sample_numerics night_sale sample_history =
     check_amount_anomaly (RiskAgent_init Config) (sample_library\<lparr>str_int := (\<lambda>n. ''h'')\<rparr>)
       sample_numerics night_sale sample_history" by blast
  ultimately show ?thesis by blast
qed

section \<open>The quantity detector\<close>

lemma positive_quantities_Inr:
  "positive_quantities h = Inr qs \<Longrightarrow> qs = positive_quantity_values h"
proof (induction h arbitrary: qs)
  case Nil
  then show ?case by (simp add: positive_quantity_values_def positive_quantity_rows_def)
next
  case (Cons txn rest)
  then show ?case
    by (auto simp add: positive_quantity_values_def positive_quantity_rows_def get_def
        positive_at_def number_or_def split: option.splits pyval.splits sum.splits if_splits)
qed

lemma positive_quantities_typed:
  "list_all (number_or_absent ''quantity'') h \<Longrightarrow>
   positive_quantities h = Inr (positive_quantity_values h)"
  by (induction h)
     (auto simp add: positive_quantity_values_def positive_quantity_rows_def get_def
        positive_at_def number_or_def number_or_absent_def split: option.splits pyval.splits)

lemma positive_quantities_untyped:
  "\<not> list_all (number_or_absent ''quantity'') h \<Longrightarrow> positive_quantities h = Inl TypeError"
  by (induction h)
     (auto simp add: get_def number_or_absent_def split: option.splits pyval.splits sum.splits)

lemma length_positive_quantity_values [simp]:
  "length (positive_quantity_values h) = length (positive_quantity_rows h)"
  by (simp add: positive_quantity_values_def)

lemma quantity_z_score_number:
  "quantity_z_score num (PNum c) (np_mean num qs) (np_std num qs) =
     Inr (runtime_z_score num c qs)"
  by (simp add: quantity_z_score_def runtime_z_score_def)

lemma quantity_few:
  "length (positive_quantity_rows h) < 10 \<Longrightarrow>
   is_anomaly (check_quantity_anomaly num t h) = False \<and>
   val (check_quantity_anomaly num t h) = None \<and>
   z_score (check_quantity_anomaly num t h) = None"
  by (auto simp add: check_quantity_anomaly_def check_quantity_anomaly_body_def absorb_def
      split: sum.splits dest!: positive_quantities_Inr)

lemma quantity_few_typed:
  "list_all (number_or_absent ''quantity'') h \<Longrightarrow> length (positive_quantity_rows h) < 10 \<Longrightarrow>
   check_quantity_anomaly num t h = not_anomalous ''quantity''"
  by (simp add: check_quantity_anomaly_def check_quantity_anomaly_body_def absorb_def
      positive_quantities_typed)

lemma quantity_runs:
  assumes "list_all (number_or_absent ''quantity'') h"
    and "10 \<le> length (positive_quantity_rows h)"
    and "number_or_absent ''quantity'' t"
  shows "check_quantity_anomaly num t h =
           (not_anomalous ''quantity'')
             \<lparr>is_anomaly :=
                3 < runtime_z_score num (number_or 0 t ''quantity'') (positive_quantity_values h),
              val := Some (PNum (number_or 0 t ''quantity'')),
              z_score :=
                Some (runtime_z_score num (number_or 0 t ''quantity'')
                        (positive_quantity_values h))\<rparr>"
proof -
  have g: "get t ''quantity'' (PNum 0) = PNum (number_or 0 t ''quantity'')"
    using assms(3)
    by (simp add: get_def number_or_def number_or_absent_def split: option.splits pyval.splits)
  show ?thesis
    using assms(2)
    by (simp add: check_quantity_anomaly_def check_quantity_anomaly_body_def absorb_def
        positive_quantities_typed [OF assms(1)] Let_def g quantity_z_score_number)
qed

lemma quantity_error:
  "\<not> list_all (number_or_absent ''quantity'') h \<Longrightarrow>
   check_quantity_anomaly num t h = failed ''quantity'' TypeError"
  by (simp add: check_quantity_anomaly_def check_quantity_anomaly_body_def absorb_def
      positive_quantities_untyped)

lemma sample_quantity_values:
  "positive_quantity_values sample_history = [9, 11, 9, 11, 9, 11, 9, 11, 9, 11]"
  by (simp add: positive_quantity_values_def positive_quantity_rows_def sample_history_def
      morning_def afternoon_def row_def positive_at_def number_or_def)

lemma sample_quantity_mean: "arithmetic_mean [9, 11, 9, 11, 9, 11, 9, 11, 9, 11] = 10"
  by (simp add: arithmetic_mean_def)

lemma sample_quantity_std: "population_std [9, 11, 9, 11, 9, 11, 9, 11, 9, 11] = 1"
  by (simp add: population_std_def arithmetic_mean_def)

lemma sample_typed_q: "list_all (number_or_absent ''quantity'') sample_history"
  by (simp add: sample_history_def morning_def afternoon_def row_def number_or_absent_def)

lemma sample_quantity_rows: "length (positive_quantity_rows sample_history) = 10"
  using sample_quantity_values length_positive_quantity_values [of sample_history] by simp

lemma absent_bare: "number_or_absent ''quantity'' bare_sale" "number_or 0 bare_sale ''quantity'' = 0"
  "bare_sale ''quantity'' = None"
  by (simp_all add: bare_sale_def number_or_absent_def number_or_def)

lemma night_quantity:
  "number_or_absent ''quantity'' night_sale" "number_or 0 night_sale ''quantity'' = 100"
  "number_or_absent ''quantity'' text_amount_sale"
  "number_or 0 text_amount_sale ''quantity'' = 100"
  by (simp_all add: text_amount_sale_def night_sale_def row_def number_or_absent_def
      number_or_def)

lemma sample_z_100:
  "runtime_z_score sample_numerics 100 [9, 11, 9, 11, 9, 11, 9, 11, 9, 11] = 90"
  "spec_z_score 100 [9, 11, 9, 11, 9, 11, 9, 11, 9, 11] = 90"
  by (simp_all add: runtime_z_score_def spec_z_score_def sample_quantity_mean
      sample_quantity_std)

lemma unfilled_quantity:
  "\<not> number_or_absent ''quantity'' unfilled" "\<not> positive_at ''quantity'' unfilled"
  by (simp_all add: number_or_absent_def positive_at_def unfilled_def)

lemma flat_quantity_values:
  "positive_quantity_values flat_history = [9, 9, 9, 9, 9, 9, 9, 9, 9, 9]"
  by (simp add: positive_quantity_values_def positive_quantity_rows_def flat_history_def
      morning_def row_def positive_at_def number_or_def)

lemma flat_std: "population_std [9, 9, 9, 9, 9, 9, 9, 9, 9, 9] = 0"
  by (simp add: population_std_def arithmetic_mean_def)

lemma flat_typed: "list_all (number_or_absent ''quantity'') flat_history"
  by (simp add: flat_history_def morning_def row_def number_or_absent_def)

lemma flat_rows: "length (positive_quantity_rows flat_history) = 10"
  using flat_quantity_values length_positive_quantity_values [of flat_history] by simp

lemma sample_quantity_result:
  "check_quantity_anomaly sample_numerics night_sale sample_history =
     (not_anomalous ''quantity'')
       \<lparr>is_anomaly := True, val := Some (PNum 100), z_score := Some 90\<rparr>"
  "check_quantity_anomaly sample_numerics text_amount_sale sample_history =
     (not_anomalous ''quantity'')
       \<lparr>is_anomaly := True, val := Some (PNum 100), z_score := Some 90\<rparr>"
proof -
  have ten: "10 \<le> length (positive_quantity_rows sample_history)"
    by (simp add: sample_quantity_rows)
  from quantity_runs [OF sample_typed_q ten night_quantity(1)]
  show "check_quantity_anomaly sample_numerics night_sale sample_history =
     (not_anomalous ''quantity'')
       \<lparr>is_anomaly := True, val := Some (PNum 100), z_score := Some 90\<rparr>"
    by (simp add: night_quantity sample_quantity_values sample_z_100)
  from quantity_runs [OF sample_typed_q ten night_quantity(3)]
  show "check_quantity_anomaly sample_numerics text_amount_sale sample_history =
     (not_anomalous ''quantity'')
       \<lparr>is_anomaly := True, val := Some (PNum 100), z_score := Some 90\<rparr>"
    by (simp add: night_quantity sample_quantity_values sample_z_100)
qed

text \<open>
  C5. The quantity detector is to flag exactly when the z-score of the current quantity
  over the positive historical quantities exceeds 3, as soon as the window holds 10 of
  them. On a window that holds, next to ten positive quantities of mean 10 and deviation 1,
  one row whose quantity was stored as \<^verbatim>\<open>None\<close>, the z-score of the quantity 100 is
  90, and the detector does not flag: the comparison \<^verbatim>\<open>txn.get('quantity', 0) > 0\<close>
  raises on that row and the detector returns its error result, whatever the arithmetic
  of the runtime is.
\<close>

theorem quantity_none_in_window:
  "10 \<le> length (positive_quantity_rows (unfilled # sample_history)) \<and>
   spec_z_score (number_or 0 night_sale ''quantity'')
     (positive_quantity_values (unfilled # sample_history)) = 90 \<and>
   check_quantity_anomaly num night_sale (unfilled # sample_history) =
     failed ''quantity'' TypeError"
proof -
  have rows: "positive_quantity_rows (unfilled # sample_history) =
      positive_quantity_rows sample_history"
    by (simp add: positive_quantity_rows_def unfilled_quantity)
  then have vals: "positive_quantity_values (unfilled # sample_history) =
      positive_quantity_values sample_history"
    by (simp add: positive_quantity_values_def)
  have "\<not> list_all (number_or_absent ''quantity'') (unfilled # sample_history)"
    by (simp add: unfilled_quantity)
  from quantity_error [OF this, of num night_sale] show ?thesis
    by (simp add: rows vals sample_quantity_rows sample_quantity_values night_quantity
        sample_z_100)
qed

text \<open>
  C9. A transaction without a quantity key is treated exactly as one with quantity 0:
  the test runs on 0. Hence, whenever the window has at least 10 positive quantities and
  the z-score the runtime computes for 0 exceeds 3, such a transaction is flagged; this
  is so when the mean exceeds 3 positive standard deviations and the difference and the
  quotient are not rounded. Such a window exists: on five quantities 9 and five
  quantities 11 (mean 10, deviation 1, and nothing to round) a transaction without
  quantity is flagged.
\<close>

theorem quantity_absent_reads_zero:
  assumes "transaction ''quantity'' = None"
  shows "check_quantity_anomaly num transaction historical =
           check_quantity_anomaly num (transaction(''quantity'' \<mapsto> PNum 0)) historical \<and>
         (list_all (number_or_absent ''quantity'') historical \<and>
          10 \<le> length (positive_quantity_rows historical) \<and>
          0 < np_std num (positive_quantity_values historical) \<and>
          3 < \<bar>float_div num
                 (float_sub num 0 (np_mean num (positive_quantity_values historical)))
                 (np_std num (positive_quantity_values historical))\<bar> \<longrightarrow>
            is_anomaly (check_quantity_anomaly num transaction historical) \<and>
            val (check_quantity_anomaly num transaction historical) = Some (PNum 0)) \<and>
         (list_all (number_or_absent ''quantity'') historical \<and>
          10 \<le> length (positive_quantity_rows historical) \<and>
          0 < np_std num (positive_quantity_values historical) \<and>
          3 * np_std num (positive_quantity_values historical)
            < np_mean num (positive_quantity_values historical) \<and>
          float_sub num 0 (np_mean num (positive_quantity_values historical)) =
            - np_mean num (positive_quantity_values historical) \<and>
          float_div num (- np_mean num (positive_quantity_values historical))
              (np_std num (positive_quantity_values historical)) =
            - np_mean num (positive_quantity_values historical) /
              np_std num (positive_quantity_values historical) \<longrightarrow>
            is_anomaly (check_quantity_anomaly num transaction historical) \<and>
            val (check_quantity_anomaly num transaction historical) = Some (PNum 0)) \<and>
         (np_mean num [9, 11, 9, 11, 9, 11, 9, 11, 9, 11] = 10 \<and>
          np_std num [9, 11, 9, 11, 9, 11, 9, 11, 9, 11] = 1 \<and>
          float_sub num 0 10 = - 10 \<and> float_div num (- 10) 1 = - 10 \<longrightarrow>
            (\<exists>window.
               10 \<le> length (positive_quantity_rows window) \<and>
               0 < np_std num (positive_quantity_values window) \<and>
               3 * np_std num (positive_quantity_values window)
                 < np_mean num (positive_quantity_values window) \<and>
               is_anomaly (check_quantity_anomaly num transaction window)))"
proof -
  have t: "number_or_absent ''quantity'' transaction" "number_or 0 transaction ''quantity'' = 0"
    using assms by (simp_all add: number_or_absent_def number_or_def)
  have eq: "check_quantity_anomaly num transaction historical =
           check_quantity_anomaly num (transaction(''quantity'' \<mapsto> PNum 0)) historical"
    using assms
    by (simp add: check_quantity_anomaly_def check_quantity_anomaly_body_def get_def Let_def
        split: sum.splits)
  have gen: "is_anomaly (check_quantity_anomaly num transaction h) \<and>
            val (check_quantity_anomaly num transaction h) = Some (PNum 0)"
    if "list_all (number_or_absent ''quantity'') h"
      "10 \<le> length (positive_quantity_rows h)"
      "0 < np_std num (positive_quantity_values h)"
      "3 < \<bar>float_div num (float_sub num 0 (np_mean num (positive_quantity_values h)))
                 (np_std num (positive_quantity_values h))\<bar>" for h
    using that(3,4)
    by (simp add: quantity_runs [OF that(1,2) t(1)] t(2) runtime_z_score_def)
  have exact: "is_anomaly (check_quantity_anomaly num transaction h) \<and>
            val (check_quantity_anomaly num transaction h) = Some (PNum 0)"
    if "list_all (number_or_absent ''quantity'') h"
      "10 \<le> length (positive_quantity_rows h)"
      "0 < np_std num (positive_quantity_values h)"
      "3 * np_std num (positive_quantity_values h) < np_mean num (positive_quantity_values h)"
      "float_sub num 0 (np_mean num (positive_quantity_values h)) =
            - np_mean num (positive_quantity_values h)"
      "float_div num (- np_mean num (positive_quantity_values h))
              (np_std num (positive_quantity_values h)) =
            - np_mean num (positive_quantity_values h) /
              np_std num (positive_quantity_values h)" for h
  proof -
    have "3 < \<bar>np_mean num (positive_quantity_values h)\<bar> /
              np_std num (positive_quantity_values h)"
      using that(3,4) by (simp add: pos_less_divide_eq)
    then have "3 < \<bar>float_div num (float_sub num 0 (np_mean num (positive_quantity_values h)))
                 (np_std num (positive_quantity_values h))\<bar>"
      using that(3) by (simp add: that(5,6))
    with that(1,2,3) show ?thesis by (rule gen)
  qed
  have ex: "\<exists>window.
               10 \<le> length (positive_quantity_rows window) \<and>
               0 < np_std num (positive_quantity_values window) \<and>
               3 * np_std num (positive_quantity_values window)
                 < np_mean num (positive_quantity_values window) \<and>
               is_anomaly (check_quantity_anomaly num transaction window)"
    if "np_mean num [9, 11, 9, 11, 9, 11, 9, 11, 9, 11] = 10"
      "np_std num [9, 11, 9, 11, 9, 11, 9, 11, 9, 11] = 1"
      "float_sub num 0 10 = - 10" "float_div num (- 10) 1 = - 10"
  proof -
    have "is_anomaly (check_quantity_anomaly num transaction sample_history)"
      using gen [of sample_history]
      by (simp add: sample_typed_q sample_quantity_rows sample_quantity_values that)
    then show ?thesis
      by (intro exI [of _ sample_history])
         (simp add: sample_quantity_rows sample_quantity_values that)
  qed
  from eq gen exact ex show ?thesis by blast
qed

theorem quantity_absent_reads_zero_witness:
  "bare_sale ''quantity'' = None \<and>
   is_anomaly (check_quantity_anomaly sample_numerics bare_sale sample_history) \<and>
   val (check_quantity_anomaly sample_numerics bare_sale sample_history) = Some (PNum 0) \<and>
   check_quantity_anomaly sample_numerics bare_sale sample_history =
     check_quantity_anomaly sample_numerics (bare_sale(''quantity'' \<mapsto> PNum 0)) sample_history \<and>
   (\<exists>window.
      10 \<le> length (positive_quantity_rows window) \<and>
      0 < np_std sample_numerics (positive_quantity_values window) \<and>
      3 * np_std sample_numerics (positive_quantity_values window)
        < np_mean sample_numerics (positive_quantity_values window) \<and>
      is_anomaly (check_quantity_anomaly sample_numerics bare_sale window))"
proof -
  have h: "bare_sale ''quantity'' = None" by (rule absent_bare)
  note inst = quantity_absent_reads_zero
    [where transaction = bare_sale and historical = sample_history and num = sample_numerics,
      OF h]
  have code: "list_all (number_or_absent ''quantity'') sample_history \<and>
          10 \<le> length (positive_quantity_rows sample_history) \<and>
          0 < np_std sample_numerics (positive_quantity_values sample_history) \<and>
          3 < \<bar>float_div sample_numerics
                 (float_sub sample_numerics 0
                    (np_mean sample_numerics (positive_quantity_values sample_history)))
                 (np_std sample_numerics (positive_quantity_values sample_history))\<bar>"
    by (simp add: sample_typed_q sample_quantity_rows sample_quantity_values
        sample_quantity_mean sample_quantity_std)
  have exact: "list_all (number_or_absent ''quantity'') sample_history \<and>
          10 \<le> length (positive_quantity_rows sample_history) \<and>
          0 < np_std sample_numerics (positive_quantity_values sample_history) \<and>
          3 * np_std sample_numerics (positive_quantity_values sample_history)
            < np_mean sample_numerics (positive_quantity_values sample_history) \<and>
          float_sub sample_numerics 0
              (np_mean sample_numerics (positive_quantity_values sample_history)) =
            - np_mean sample_numerics (positive_quantity_values sample_history) \<and>
          float_div sample_numerics
              (- np_mean sample_numerics (positive_quantity_values sample_history))
              (np_std sample_numerics (positive_quantity_values sample_history)) =
            - np_mean sample_numerics (positive_quantity_values sample_history) /
              np_std sample_numerics (positive_quantity_values sample_history)"
    by (simp add: sample_typed_q sample_quantity_rows sample_quantity_values
        sample_quantity_mean sample_quantity_std)
  have pointwise: "np_mean sample_numerics [9, 11, 9, 11, 9, 11, 9, 11, 9, 11] = 10 \<and>
          np_std sample_numerics [9, 11, 9, 11, 9, 11, 9, 11, 9, 11] = 1 \<and>
          float_sub sample_numerics 0 10 = - 10 \<and> float_div sample_numerics (- 10) 1 = - 10"
    by (simp add: sample_quantity_mean sample_quantity_std)
  from inst [THEN conjunct1]
  have A: "check_quantity_anomaly sample_numerics bare_sale sample_history =
     check_quantity_anomaly sample_numerics (bare_sale(''quantity'' \<mapsto> PNum 0)) sample_history" .
  from inst [THEN conjunct2, THEN conjunct1, THEN mp, OF code]
  have B: "is_anomaly (check_quantity_anomaly sample_numerics bare_sale sample_history) \<and>
   val (check_quantity_anomaly sample_numerics bare_sale sample_history) = Some (PNum 0)" .
  from inst [THEN conjunct2, THEN conjunct2, THEN conjunct1, THEN mp, OF exact]
  have B': "is_anomaly (check_quantity_anomaly sample_numerics bare_sale sample_history) \<and>
   val (check_quantity_anomaly sample_numerics bare_sale sample_history) = Some (PNum 0)" .
  from inst [THEN conjunct2, THEN conjunct2, THEN conjunct2, THEN mp, OF pointwise]
  have C: "\<exists>window.
      10 \<le> length (positive_quantity_rows window) \<and>
      0 < np_std sample_numerics (positive_quantity_values window) \<and>
      3 * np_std sample_numerics (positive_quantity_values window)
        < np_mean sample_numerics (positive_quantity_values window) \<and>
      is_anomaly (check_quantity_anomaly sample_numerics bare_sale window)" .
  from h A B B' C show ?thesis by blast
qed

section \<open>The timing detector\<close>

lemma historical_hours_typed:
  "list_all (\<lambda>txn. parsed_hour lib txn \<noteq> None) h \<Longrightarrow>
   historical_hours lib h = Inr (seen_hours lib h)"
  by (induction h)
     (auto simp add: seen_hours_def parsed_hour_def getitem_def
        split: option.splits pyval.splits)

lemma unparsed_row:
  "parsed_hour lib txn = None \<Longrightarrow>
   (\<exists>e. getitem txn ''created_at'' = Inl e) \<or>
   (\<exists>v e. getitem txn ''created_at'' = Inr v \<and> datetime_fromisoformat lib v = Inl e)"
  by (auto simp add: parsed_hour_def getitem_def split: option.splits pyval.splits)

lemma historical_hours_untyped:
  "\<not> list_all (\<lambda>txn. parsed_hour lib txn \<noteq> None) h \<Longrightarrow>
   \<exists>e. historical_hours lib h = Inl e"
proof (induction h)
  case Nil
  then show ?case by simp
next
  case (Cons txn rest)
  show ?case
  proof (cases "parsed_hour lib txn = None")
    case True
    from unparsed_row [OF this] show ?thesis by auto
  next
    case False
    with Cons.prems have "\<not> list_all (\<lambda>txn. parsed_hour lib txn \<noteq> None) rest" by simp
    from Cons.IH [OF this] show ?thesis by (auto split: sum.splits)
  qed
qed

lemma transaction_hour:
  "parsed_hour lib t = Some txn_hour \<Longrightarrow>
   \<exists>v d. getitem t ''created_at'' = Inr v \<and> datetime_fromisoformat lib v = Inr d \<and>
         dt_hour d = txn_hour"
  by (auto simp add: parsed_hour_def getitem_def split: option.splits pyval.splits)

text \<open>
  On timestamps that are ISO text: the detector flags exactly when the hour of the
  transaction is at least 23 or at most 5 and occurs nowhere among the hours of the window.
\<close>

lemma timing_runs:
  assumes "parsed_hour lib t = Some txn_hour"
    and "list_all (\<lambda>txn. parsed_hour lib txn \<noteq> None) h"
  shows "check_unusual_timing lib t h =
           (not_anomalous ''timing'')
             \<lparr>is_anomaly := off_hours txn_hour \<and> txn_hour \<notin> set (seen_hours lib h),
              hour := Some txn_hour,
              typical_hours := Some (set (seen_hours lib h))\<rparr>"
  using transaction_hour [OF assms(1)]
  by (auto simp add: check_unusual_timing_def check_unusual_timing_body_def absorb_def
      historical_hours_typed [OF assms(2)] Let_def off_hours_def)

lemma timing_fails:
  assumes "\<not> list_all (\<lambda>txn. parsed_hour lib txn \<noteq> None) h"
  shows "is_anomaly (check_unusual_timing lib t h) = False \<and>
         error (check_unusual_timing lib t h) \<noteq> None"
  using historical_hours_untyped [OF assms]
  by (auto simp add: check_unusual_timing_def check_unusual_timing_body_def absorb_def
      split: sum.splits)

lemma timing_missing:
  "t ''created_at'' = None \<Longrightarrow> check_unusual_timing lib t h = failed ''timing'' KeyError"
  by (simp add: check_unusual_timing_def check_unusual_timing_body_def absorb_def getitem_def)

lemma timing_unparsable:
  "t ''created_at'' = Some (PStr s) \<Longrightarrow> fromisoformat lib s = None \<Longrightarrow>
   check_unusual_timing lib t h = failed ''timing'' ValueError"
  by (simp add: check_unusual_timing_def check_unusual_timing_body_def absorb_def getitem_def)


lemma sample_parse:
  "parsed_hour sample_library night_sale = Some 2"
  "parsed_hour sample_library morning = Some 9"
  "parsed_hour sample_library afternoon = Some 14"
  "parsed_hour sample_library text_amount_sale = Some 2"
  by (simp_all add: parsed_hour_def sample_library_def night_sale_def morning_def
      afternoon_def text_amount_sale_def row_def)

lemma sample_seen_hours:
  "seen_hours sample_library sample_history = [9, 14, 9, 14, 9, 14, 9, 14, 9, 14]"
  by (simp add: seen_hours_def sample_history_def sample_parse)

lemma sample_all_parse:
  "list_all (\<lambda>txn. parsed_hour sample_library txn \<noteq> None) sample_history"
  by (simp add: sample_history_def sample_parse)

lemma sample_timing_result:
  "check_unusual_timing sample_library night_sale sample_history =
     (not_anomalous ''timing'')
       \<lparr>is_anomaly := True, hour := Some 2,
        typical_hours := Some (set (seen_hours sample_library sample_history))\<rparr>"
  "check_unusual_timing sample_library text_amount_sale sample_history =
     (not_anomalous ''timing'')
       \<lparr>is_anomaly := True, hour := Some 2,
        typical_hours := Some (set (seen_hours sample_library sample_history))\<rparr>"
  using timing_runs [OF sample_parse(1) sample_all_parse]
    timing_runs [OF sample_parse(4) sample_all_parse]
  by (simp_all add: off_hours_def sample_seen_hours)



section \<open>The price detector\<close>

lemma same_item_lower:
  "same_item lib name txn \<longleftrightarrow>
   lower lib (get txn ''item'' (PStr [])) = Inr (str_lower lib name)"
  by (cases "get txn ''item'' (PStr [])") (simp_all add: same_item_def)

lemma lower_text_or_absent:
  "text_or_absent ''item'' txn \<longleftrightarrow> (\<exists>s. lower lib (get txn ''item'' (PStr [])) = Inr s)"
  by (auto simp add: text_or_absent_def get_def split: option.splits pyval.splits)

lemma positive_at_gt0:
  "positive_at ''quantity'' txn \<longleftrightarrow> py_gt0 (get txn ''quantity'' (PNum 0)) = Inr True"
  by (auto simp add: positive_at_def get_def split: option.splits pyval.splits)

lemma gt0_number_or_absent:
  "number_or_absent ''quantity'' txn \<longleftrightarrow> (\<exists>b. py_gt0 (get txn ''quantity'' (PNum 0)) = Inr b)"
  by (auto simp add: number_or_absent_def get_def split: option.splits pyval.splits)

lemma truediv_Inr:
  "py_truediv num a b = Inr p \<Longrightarrow> \<exists>x y. a = PNum x \<and> b = PNum y \<and> p = float_div num x y"
  by (cases a; cases b) (simp_all split: if_splits)

lemma get_number: "get d k (PNum 0) = PNum x \<Longrightarrow> number_or 0 d k = x"
  by (auto simp add: get_def number_or_def split: option.splits pyval.splits)

lemma truediv_unit_price:
  "py_truediv num (get txn ''amount'' (PNum 0)) (get txn ''quantity'' (PNum 0)) = Inr p \<Longrightarrow>
   p = unit_price num txn"
  by (auto simp add: unit_price_def dest!: truediv_Inr get_number)

lemma truediv_typed:
  "number_or_absent ''amount'' txn \<Longrightarrow> positive_at ''quantity'' txn \<Longrightarrow>
   py_truediv num (get txn ''amount'' (PNum 0)) (get txn ''quantity'' (PNum 0)) =
     Inr (unit_price num txn)"
  by (auto simp add: unit_price_def get_def number_or_def number_or_absent_def positive_at_def
      split: option.splits pyval.splits)

lemma truediv_untyped:
  "\<not> number_or_absent ''amount'' txn \<Longrightarrow>
   \<exists>e. py_truediv num (get txn ''amount'' (PNum 0)) b = Inl e"
  by (cases b)
     (auto simp add: get_def number_or_absent_def split: option.splits pyval.splits)

lemma historical_prices_Cons:
  "historical_prices lib num (PStr name) (txn # rest) =
     (case lower lib (get txn ''item'' (PStr [])) of
        Inl e \<Rightarrow> Inl e
      | Inr s \<Rightarrow>
          if s = str_lower lib name then
            (case py_gt0 (get txn ''quantity'' (PNum 0)) of
               Inl e \<Rightarrow> Inl e
             | Inr positive \<Rightarrow>
                 if positive then
                   (case py_truediv num (get txn ''amount'' (PNum 0))
                           (get txn ''quantity'' (PNum 0)) of
                      Inl e \<Rightarrow> Inl e
                    | Inr price \<Rightarrow>
                        (case historical_prices lib num (PStr name) rest of
                           Inl e \<Rightarrow> Inl e
                         | Inr prices \<Rightarrow> Inr (price # prices)))
                 else historical_prices lib num (PStr name) rest)
          else historical_prices lib num (PStr name) rest)"
  by (simp add: Let_def split: sum.splits)

lemma unit_prices_Cons:
  "unit_prices lib num name (txn # rest) =
     (if same_item lib name txn \<and> positive_at ''quantity'' txn
      then unit_price num txn # unit_prices lib num name rest
      else unit_prices lib num name rest)"
  by (simp add: unit_prices_def item_rows_def)

lemma historical_prices_Inr:
  "historical_prices lib num (PStr name) h = Inr ps \<Longrightarrow> ps = unit_prices lib num name h"
proof (induction h arbitrary: ps)
  case Nil
  then show ?case by (simp add: unit_prices_def item_rows_def)
next
  case (Cons txn rest)
  from Cons.prems obtain s where s: "lower lib (get txn ''item'' (PStr [])) = Inr s"
    unfolding historical_prices_Cons by (auto split: sum.splits)
  show ?case
  proof (cases "s = str_lower lib name")
    case False
    with s have "\<not> same_item lib name txn" by (simp add: same_item_lower)
    moreover from Cons.prems s False have "historical_prices lib num (PStr name) rest = Inr ps"
      unfolding historical_prices_Cons by simp
    ultimately show ?thesis using Cons.IH by (simp add: unit_prices_Cons)
  next
    case True
    with s have same: "same_item lib name txn" by (simp add: same_item_lower)
    from Cons.prems s True obtain b where b: "py_gt0 (get txn ''quantity'' (PNum 0)) = Inr b"
      unfolding historical_prices_Cons by (auto split: sum.splits)
    show ?thesis
    proof (cases b)
      case False
      with b have "\<not> positive_at ''quantity'' txn" by (simp add: positive_at_gt0)
      moreover from Cons.prems s True b False
      have "historical_prices lib num (PStr name) rest = Inr ps"
        unfolding historical_prices_Cons by simp
      ultimately show ?thesis using Cons.IH by (simp add: unit_prices_Cons)
    next
      case pos: True
      with b have p: "positive_at ''quantity'' txn" by (simp add: positive_at_gt0)
      from Cons.prems s True b pos obtain price prices where
        pr: "py_truediv num (get txn ''amount'' (PNum 0)) (get txn ''quantity'' (PNum 0)) =
              Inr price"
        and rest: "historical_prices lib num (PStr name) rest = Inr prices"
        and ps: "ps = price # prices"
        unfolding historical_prices_Cons by (auto split: sum.splits)
      from truediv_unit_price [OF pr] Cons.IH [OF rest] same p ps
      show ?thesis by (simp add: unit_prices_Cons)
    qed
  qed
qed

text \<open>The loop completes exactly on the windows all of whose rows it can read.\<close>

lemma historical_prices_ok:
  "list_all (price_row_ok lib name) h \<Longrightarrow>
   historical_prices lib num (PStr name) h = Inr (unit_prices lib num name h)"
proof (induction h)
  case Nil
  then show ?case by (simp add: unit_prices_def item_rows_def)
next
  case (Cons txn rest)
  then have IH: "historical_prices lib num (PStr name) rest = Inr (unit_prices lib num name rest)"
    and ok: "price_row_ok lib name txn" by simp_all
  from ok obtain s where s: "lower lib (get txn ''item'' (PStr [])) = Inr s"
    by (auto simp add: price_row_ok_def lower_text_or_absent [of txn lib])
  show ?case
  proof (cases "s = str_lower lib name")
    case False
    with s have "\<not> same_item lib name txn" by (simp add: same_item_lower)
    with False s IH show ?thesis
      unfolding historical_prices_Cons by (simp add: unit_prices_Cons)
  next
    case True
    with s have same: "same_item lib name txn" by (simp add: same_item_lower)
    with ok have q: "number_or_absent ''quantity'' txn" by (simp add: price_row_ok_def)
    then obtain b where b: "py_gt0 (get txn ''quantity'' (PNum 0)) = Inr b"
      by (auto simp add: gt0_number_or_absent)
    show ?thesis
    proof (cases b)
      case False
      with b have "\<not> positive_at ''quantity'' txn" by (simp add: positive_at_gt0)
      with False True s b IH show ?thesis
        unfolding historical_prices_Cons by (simp add: unit_prices_Cons)
    next
      case pos: True
      with b have p: "positive_at ''quantity'' txn" by (simp add: positive_at_gt0)
      with ok same have am: "number_or_absent ''amount'' txn" by (simp add: price_row_ok_def)
      from True s b pos IH truediv_typed [OF am p, of num] same p show ?thesis
        unfolding historical_prices_Cons by (simp add: unit_prices_Cons)
    qed
  qed
qed

lemma historical_prices_bad:
  "\<not> list_all (price_row_ok lib name) h \<Longrightarrow>
   \<exists>e. historical_prices lib num (PStr name) h = Inl e"
proof (induction h)
  case Nil
  then show ?case by simp
next
  case (Cons txn rest)
  show ?case
  proof (cases "price_row_ok lib name txn")
    case True
    with Cons.prems have "\<not> list_all (price_row_ok lib name) rest" by simp
    from Cons.IH [OF this] show ?thesis
      unfolding historical_prices_Cons by (auto split: sum.splits)
  next
    case bad: False
    show ?thesis
    proof (cases "lower lib (get txn ''item'' (PStr []))")
      case (Inl e)
      then show ?thesis unfolding historical_prices_Cons by simp
    next
      case (Inr s)
      then have item: "text_or_absent ''item'' txn"
        using lower_text_or_absent [of txn lib] by blast
      with bad have same: "same_item lib name txn" by (auto simp add: price_row_ok_def)
      with Inr have s: "s = str_lower lib name" by (simp add: same_item_lower)
      show ?thesis
      proof (cases "py_gt0 (get txn ''quantity'' (PNum 0))")
        case (Inl e)
        with Inr s show ?thesis unfolding historical_prices_Cons by simp
      next
        case b: (Inr b)
        then have q: "number_or_absent ''quantity'' txn"
          using gt0_number_or_absent [of txn] by blast
        with bad item same have p: "positive_at ''quantity'' txn"
          and am: "\<not> number_or_absent ''amount'' txn"
          by (auto simp add: price_row_ok_def)
        from p b have "b" by (simp add: positive_at_gt0)
        moreover from truediv_untyped [OF am] obtain e where
          "py_truediv num (get txn ''amount'' (PNum 0)) (get txn ''quantity'' (PNum 0)) = Inl e"
          by blast
        ultimately show ?thesis
          using Inr s b unfolding historical_prices_Cons by simp
      qed
    qed
  qed
qed

lemma length_unit_prices [simp]:
  "length (unit_prices lib num name h) = length (item_rows lib name h)"
  by (simp add: unit_prices_def)

lemma price_no_item:
  "\<not> truthy (get entities ''item'' PNone) \<Longrightarrow>
   check_price_deviation lib num t h entities = not_anomalous ''price''"
  by (simp add: check_price_deviation_def check_price_deviation_body_def absorb_def)

lemma price_zero_quantity:
  "py_eq0 (get entities ''quantity'' (PNum 0)) \<Longrightarrow>
   is_anomaly (check_price_deviation lib num t h entities) = False"
  by (simp add: check_price_deviation_def check_price_deviation_body_def absorb_def Let_def
      split: sum.splits)

lemma price_few:
  assumes "get entities ''item'' PNone = PStr name" and "length (item_rows lib name h) < 3"
  shows "is_anomaly (check_price_deviation lib num t h entities) = False"
proof (cases "historical_prices lib num (PStr name) h")
  case (Inl e)
  then show ?thesis
    by (simp add: check_price_deviation_def check_price_deviation_body_def absorb_def assms(1))
next
  case (Inr ps)
  with assms(2) historical_prices_Inr [OF Inr] show ?thesis
    by (simp add: check_price_deviation_def check_price_deviation_body_def absorb_def assms(1))
qed

lemma price_runs:
  assumes "get entities ''item'' PNone = PStr name" and "name \<noteq> []"
    and "list_all (price_row_ok lib name) h" and "3 \<le> length (item_rows lib name h)"
    and "entities ''quantity'' = Some (PNum q)" and "q \<noteq> 0"
    and "number_or_absent ''amount'' t"
  shows "check_price_deviation lib num t h entities =
           (not_anomalous ''price'')
             \<lparr>is_anomaly :=
                1 / 2 < price_deviation num (float_div num (number_or 0 t ''amount'') q)
                          (np_mean num (unit_prices lib num name h)),
              current_price := Some (float_div num (number_or 0 t ''amount'') q),
              mean_price := Some (np_mean num (unit_prices lib num name h)),
              deviation_pct :=
                Some (float_mul num
                        (price_deviation num (float_div num (number_or 0 t ''amount'') q)
                           (np_mean num (unit_prices lib num name h))) 100)\<rparr>"
proof -
  have a: "get t ''amount'' (PNum 0) = PNum (number_or 0 t ''amount'')"
    using assms(7)
    by (simp add: get_def number_or_def number_or_absent_def split: option.splits pyval.splits)
  have q: "get entities ''quantity'' (PNum 0) = PNum q"
    using assms(5) by (simp add: get_def)
  show ?thesis
    using assms(2,4,6)
    by (simp add: check_price_deviation_def check_price_deviation_body_def absorb_def
        assms(1) historical_prices_ok [OF assms(3)] Let_def a q)
qed

lemma price_current_amount_error:
  assumes "get entities ''item'' PNone = PStr name" and "name \<noteq> []"
    and "list_all (price_row_ok lib name) h" and "3 \<le> length (item_rows lib name h)"
    and "entities ''quantity'' = Some (PNum q)" and "q \<noteq> 0"
    and "t ''amount'' = Some (PStr s)"
  shows "check_price_deviation lib num t h entities = failed ''price'' TypeError"
proof -
  have a: "get t ''amount'' (PNum 0) = PStr s"
    using assms(7) by (simp add: get_def)
  have q: "get entities ''quantity'' (PNum 0) = PNum q"
    using assms(5) by (simp add: get_def)
  show ?thesis
    using assms(2,4,6)
    by (simp add: check_price_deviation_def check_price_deviation_body_def absorb_def
        assms(1) historical_prices_ok [OF assms(3)] Let_def a q)
qed

lemma price_body_amount:
  "get t' ''amount'' (PNum 0) = get t ''amount'' (PNum 0) \<Longrightarrow>
   check_price_deviation_body lib num t' h e = check_price_deviation_body lib num t h e"
  by (simp add: check_price_deviation_body_def Let_def split: sum.splits)

lemma sample_lower [simp]: "str_lower sample_library = map lower_char"
  by (simp add: sample_library_def)

lemma sample_same_item:
  "same_item sample_library ''Rice'' morning" "same_item sample_library ''Rice'' afternoon"
  "same_item sample_library ''Rice'' refund" "\<not> same_item sample_library ''Rice'' wheat_sale"
  by (simp_all add: same_item_def get_def morning_def afternoon_def refund_def wheat_sale_def
      row_def lower_char_def)

lemma sample_positive_quantity:
  "positive_at ''quantity'' morning" "positive_at ''quantity'' afternoon"
  "positive_at ''quantity'' refund"
  by (simp_all add: positive_at_def morning_def afternoon_def refund_def row_def)

lemma sample_unit_price:
  "unit_price sample_numerics morning = 10" "unit_price sample_numerics afternoon = 10"
  "unit_price sample_numerics refund = - 10"
  by (simp_all add: unit_price_def number_or_def morning_def afternoon_def refund_def row_def)

lemma sample_rows_ok:
  "price_row_ok sample_library ''Rice'' morning" "price_row_ok sample_library ''Rice'' afternoon"
  "price_row_ok sample_library ''Rice'' refund" "price_row_ok sample_library ''Rice'' wheat_sale"
  "\<not> number_or_absent ''quantity'' wheat_sale"
proof -
  have "text_or_absent ''item'' morning" "text_or_absent ''item'' afternoon"
    "text_or_absent ''item'' refund" "text_or_absent ''item'' wheat_sale"
    "number_or_absent ''quantity'' morning" "number_or_absent ''quantity'' afternoon"
    "number_or_absent ''quantity'' refund"
    "number_or_absent ''amount'' morning" "number_or_absent ''amount'' afternoon"
    "number_or_absent ''amount'' refund"
    by (simp_all add: text_or_absent_def number_or_absent_def morning_def afternoon_def
        refund_def wheat_sale_def row_def)
  then show "price_row_ok sample_library ''Rice'' morning"
    "price_row_ok sample_library ''Rice'' afternoon"
    "price_row_ok sample_library ''Rice'' refund"
    "price_row_ok sample_library ''Rice'' wheat_sale"
    by (simp_all add: price_row_ok_def sample_same_item)
  show "\<not> number_or_absent ''quantity'' wheat_sale"
    by (simp add: number_or_absent_def wheat_sale_def)
qed

lemma sample_unit_prices:
  "unit_prices sample_library sample_numerics ''Rice'' sample_history =
     [10, 10, 10, 10, 10, 10, 10, 10, 10, 10]"
  "unit_prices sample_library sample_numerics ''Rice'' (wheat_sale # sample_history) =
     [10, 10, 10, 10, 10, 10, 10, 10, 10, 10]"
  "unit_prices sample_library sample_numerics ''Rice'' [refund, refund, refund] =
     [- 10, - 10, - 10]"
  by (simp_all add: unit_prices_Cons unit_prices_def [of _ _ _ "[]"] item_rows_def [of _ _ "[]"]
      sample_history_def sample_same_item sample_positive_quantity sample_unit_price)

lemma sample_price_mean:
  "arithmetic_mean [10, 10, 10, 10, 10, 10, 10, 10, 10, 10] = 10"
  "arithmetic_mean [- 10, - 10, - 10] = - 10"
  by (simp_all add: arithmetic_mean_def)

lemma sample_history_ok:
  "list_all (price_row_ok sample_library ''Rice'') sample_history"
  "list_all (price_row_ok sample_library ''Rice'') (wheat_sale # sample_history)"
  "list_all (price_row_ok sample_library ''Rice'') [refund, refund, refund]"
  by (simp_all add: sample_history_def sample_rows_ok)

lemma rice_entities_simps:
  "get (rice_entities q) ''item'' PNone = PStr ''Rice''"
  "rice_entities q ''quantity'' = Some (PNum q)"
  "get (rice_entities q) ''quantity'' (PNum 0) = PNum q"
  by (simp_all add: rice_entities_def get_def)

lemma night_amount_typed:
  "number_or_absent ''amount'' night_sale" "number_or 0 night_sale ''amount'' = 500"
  by (simp_all add: number_or_absent_def number_or_def night_sale_def row_def)

lemma sample_item_rows:
  "length (item_rows sample_library ''Rice'' sample_history) = 10"
  "length (item_rows sample_library ''Rice'' (wheat_sale # sample_history)) = 10"
  "length (item_rows sample_library ''Rice'' [refund, refund, refund]) = 3"
proof -
  have "length (unit_prices sample_library sample_numerics ''Rice'' sample_history) = 10"
    "length (unit_prices sample_library sample_numerics ''Rice'' (wheat_sale # sample_history))
       = 10"
    "length (unit_prices sample_library sample_numerics ''Rice'' [refund, refund, refund]) = 3"
    unfolding sample_unit_prices by simp_all
  then show "length (item_rows sample_library ''Rice'' sample_history) = 10"
    "length (item_rows sample_library ''Rice'' (wheat_sale # sample_history)) = 10"
    "length (item_rows sample_library ''Rice'' [refund, refund, refund]) = 3"
    by simp_all
qed

lemma sample_price_run:
  "check_price_deviation sample_library sample_numerics night_sale sample_history
     (rice_entities q) =
     (if q = 0
      then check_price_deviation sample_library sample_numerics night_sale sample_history
             (rice_entities 0)
      else (not_anomalous ''price'')
             \<lparr>is_anomaly := 1 / 2 < price_deviation sample_numerics (500 / q) 10,
              current_price := Some (500 / q),
              mean_price := Some 10,
              deviation_pct := Some (price_deviation sample_numerics (500 / q) 10 * 100)\<rparr>)"
proof (cases "q = 0")
  case True
  then show ?thesis by simp
next
  case False
  have "(3::nat) \<le> 10" by simp
  then have three: "3 \<le> length (item_rows sample_library ''Rice'' sample_history)"
    by (simp only: sample_item_rows)
  from price_runs [OF rice_entities_simps(1) _ sample_history_ok(1) three
      rice_entities_simps(2) False night_amount_typed(1), of sample_numerics] False
  show ?thesis
    by (simp add: night_amount_typed sample_unit_prices sample_price_mean)
qed

lemma sample_price_result:
  "is_anomaly (check_price_deviation sample_library sample_numerics night_sale sample_history
     (rice_entities 100)) = False"
  "check_price_deviation sample_library sample_numerics text_amount_sale sample_history
     (rice_entities 100) = failed ''price'' TypeError"
proof -
  show "is_anomaly (check_price_deviation sample_library sample_numerics night_sale
     sample_history (rice_entities 100)) = False"
    by (simp add: sample_price_run price_deviation_def)
  have "(3::nat) \<le> 10" by simp
  then have three: "3 \<le> length (item_rows sample_library ''Rice'' sample_history)"
    by (simp only: sample_item_rows)
  have hundred: "(100::real) \<noteq> 0" by simp
  from price_current_amount_error [where t = text_amount_sale and num = sample_numerics
      and entities = "rice_entities 100" and q = 100,
      OF rice_entities_simps(1) _ sample_history_ok(1) three
      rice_entities_simps(2) hundred text_amount]
  show "check_price_deviation sample_library sample_numerics text_amount_sale sample_history
     (rice_entities 100) = failed ''price'' TypeError"
    by simp
qed

text \<open>
  C4, as amended. The price detector does not flag when the entities name no item, when
  the quantity of the entities is absent or equal to 0, or when fewer than 3 historical
  transactions of the item (same name up to letter case) have a strictly positive
  quantity. With an item, a quantity that is a number other than 0 (a negative one
  included), at least 3 such transactions, and a window and a current amount the detector
  can read, the current price is amount / quantity, the mean is that of the historical
  prices per unit, the deviation is \<open>|(current - mean) / mean|\<close> when the mean is positive
  and 0 otherwise, all in the arithmetic of the runtime, the flag is set exactly when the
  deviation exceeds 0.5, and the reported percentage is 100 times the deviation.
\<close>

theorem price_deviation_test:
  assumes "r = check_price_deviation lib num transaction historical entities"
    and "price = float_div num (number_or 0 transaction ''amount'') q"
    and "m = np_mean num (unit_prices lib num name historical)"
    and "deviation = (if 0 < m then \<bar>float_div num (float_sub num price m) m\<bar> else 0)"
  shows "(\<not> truthy (get entities ''item'' PNone) \<longrightarrow> r = not_anomalous ''price'') \<and>
         (py_eq0 (get entities ''quantity'' (PNum 0)) \<longrightarrow> is_anomaly r = False) \<and>
         (get entities ''item'' PNone = PStr name \<and>
          length (item_rows lib name historical) < 3 \<longrightarrow> is_anomaly r = False) \<and>
         (get entities ''item'' PNone = PStr name \<and> name \<noteq> [] \<and>
          list_all (price_row_ok lib name) historical \<and>
          3 \<le> length (item_rows lib name historical) \<and>
          entities ''quantity'' = Some (PNum q) \<and> q \<noteq> 0 \<and>
          number_or_absent ''amount'' transaction \<longrightarrow>
            current_price r = Some price \<and>
            mean_price r = Some m \<and>
            (is_anomaly r \<longleftrightarrow> 1 / 2 < deviation) \<and>
            deviation_pct r = Some (float_mul num deviation 100) \<and>
            (m \<le> 0 \<longrightarrow> \<not> is_anomaly r) \<and>
            error r = None)"
proof -
  have run: "current_price r = Some price \<and>
            mean_price r = Some m \<and>
            (is_anomaly r \<longleftrightarrow> 1 / 2 < deviation) \<and>
            deviation_pct r = Some (float_mul num deviation 100) \<and>
            (m \<le> 0 \<longrightarrow> \<not> is_anomaly r) \<and>
            error r = None"
    if "get entities ''item'' PNone = PStr name" "name \<noteq> []"
      "list_all (price_row_ok lib name) historical"
      "3 \<le> length (item_rows lib name historical)"
      "entities ''quantity'' = Some (PNum q)" "q \<noteq> 0"
      "number_or_absent ''amount'' transaction"
  proof -
    have d: "price_deviation num price m = deviation"
      by (simp add: price_deviation_def assms(4))
    note pr = price_runs [OF that, of num, folded assms(2), folded assms(3), unfolded d,
        folded assms(1)]
    have "current_price r = Some price" "mean_price r = Some m" "error r = None"
      "is_anomaly r \<longleftrightarrow> 1 / 2 < deviation"
      "deviation_pct r = Some (float_mul num deviation 100)"
      by (simp_all add: pr)
    moreover have "\<not> is_anomaly r" if "m \<le> 0"
      using that by (simp add: pr assms(4))
    ultimately show ?thesis by blast
  qed
  have A: "\<not> truthy (get entities ''item'' PNone) \<longrightarrow> r = not_anomalous ''price''"
    unfolding assms(1) using price_no_item by blast
  have B: "py_eq0 (get entities ''quantity'' (PNum 0)) \<longrightarrow> is_anomaly r = False"
    unfolding assms(1) using price_zero_quantity by blast
  have C: "get entities ''item'' PNone = PStr name \<and>
          length (item_rows lib name historical) < 3 \<longrightarrow> is_anomaly r = False"
    unfolding assms(1) using price_few by blast
  from run have D: "get entities ''item'' PNone = PStr name \<and> name \<noteq> [] \<and>
          list_all (price_row_ok lib name) historical \<and>
          3 \<le> length (item_rows lib name historical) \<and>
          entities ''quantity'' = Some (PNum q) \<and> q \<noteq> 0 \<and>
          number_or_absent ''amount'' transaction \<longrightarrow>
            current_price r = Some price \<and>
            mean_price r = Some m \<and>
            (is_anomaly r \<longleftrightarrow> 1 / 2 < deviation) \<and>
            deviation_pct r = Some (float_mul num deviation 100) \<and>
            (m \<le> 0 \<longrightarrow> \<not> is_anomaly r) \<and>
            error r = None"
    by (intro impI) (elim conjE, assumption)
  from A B C D show ?thesis by (intro conjI)
qed

theorem price_deviation_test_witness:
  "is_anomaly (check_price_deviation sample_library sample_numerics night_sale sample_history
     (rice_entities 10)) \<and>
   deviation_pct (check_price_deviation sample_library sample_numerics night_sale
     sample_history (rice_entities 10)) = Some 400 \<and>
   \<not> is_anomaly (check_price_deviation sample_library sample_numerics night_sale
     sample_history (rice_entities 50)) \<and>
   \<not> is_anomaly (check_price_deviation sample_library sample_numerics night_sale
     sample_history (rice_entities 0)) \<and>
   \<not> is_anomaly (check_price_deviation sample_library sample_numerics night_sale []
     (rice_entities 10)) \<and>
   check_price_deviation sample_library sample_numerics night_sale sample_history Map.empty =
     not_anomalous ''price'' \<and>
   \<not> is_anomaly (check_price_deviation sample_library sample_numerics night_sale
     [refund, refund, refund] (rice_entities 100)) \<and>
   \<not> number_or_absent ''quantity'' wheat_sale \<and>
   is_anomaly (check_price_deviation sample_library sample_numerics night_sale
     (wheat_sale # sample_history) (rice_entities 10))"
proof -
  have three: "3 \<le> length (item_rows sample_library ''Rice'' sample_history)"
    by (simp add: sample_item_rows)
  have three': "3 \<le> length (item_rows sample_library ''Rice'' [refund, refund, refund])"
    by (simp add: sample_item_rows)
  have three'': "3 \<le> length (item_rows sample_library ''Rice'' (wheat_sale # sample_history))"
    by (simp add: sample_item_rows)
  have none: "length (item_rows sample_library ''Rice'' []) < 3"
    by (simp add: item_rows_def)
  note t10 = price_deviation_test [OF refl refl refl refl, where transaction = night_sale
      and lib = sample_library and num = sample_numerics
      and historical = sample_history and entities = "rice_entities 10"
      and name = "''Rice''" and q = 10]
  note t50 = price_deviation_test [OF refl refl refl refl, where transaction = night_sale
      and lib = sample_library and num = sample_numerics
      and historical = sample_history and entities = "rice_entities 50"
      and name = "''Rice''" and q = 50]
  note t0 = price_deviation_test [OF refl refl refl refl, where transaction = night_sale
      and lib = sample_library and num = sample_numerics
      and historical = sample_history and entities = "rice_entities 0"
      and name = "''Rice''" and q = 0]
  note te = price_deviation_test [OF refl refl refl refl, where transaction = night_sale
      and lib = sample_library and num = sample_numerics
      and historical = "[]" and entities = "rice_entities 10"
      and name = "''Rice''" and q = 10]
  note tn = price_deviation_test [OF refl refl refl refl, where transaction = night_sale
      and lib = sample_library and num = sample_numerics
      and historical = sample_history and entities = Map.empty
      and name = "''Rice''" and q = 10]
  note tr = price_deviation_test [OF refl refl refl refl, where transaction = night_sale
      and lib = sample_library and num = sample_numerics
      and historical = "[refund, refund, refund]" and entities = "rice_entities 100"
      and name = "''Rice''" and q = 100]
  note tw = price_deviation_test [OF refl refl refl refl, where transaction = night_sale
      and lib = sample_library and num = sample_numerics
      and historical = "wheat_sale # sample_history" and entities = "rice_entities 10"
      and name = "''Rice''" and q = 10]
  have a: "is_anomaly (check_price_deviation sample_library sample_numerics night_sale
       sample_history (rice_entities 10)) \<and>
      deviation_pct (check_price_deviation sample_library sample_numerics night_sale
       sample_history (rice_entities 10)) = Some 400"
    using t10 three
    by (simp add: rice_entities_simps sample_history_ok night_amount_typed
        sample_unit_prices sample_price_mean)
  have b: "\<not> is_anomaly (check_price_deviation sample_library sample_numerics night_sale
       sample_history (rice_entities 50))"
    using t50 three
    by (simp add: rice_entities_simps sample_history_ok night_amount_typed
        sample_unit_prices sample_price_mean)
  have c: "\<not> is_anomaly (check_price_deviation sample_library sample_numerics night_sale
       sample_history (rice_entities 0))"
    using t0 by (simp add: rice_entities_simps)
  have d: "\<not> is_anomaly (check_price_deviation sample_library sample_numerics night_sale []
       (rice_entities 10))"
    using te none by (simp add: rice_entities_simps)
  have e: "check_price_deviation sample_library sample_numerics night_sale sample_history
       Map.empty = not_anomalous ''price''"
    using tn by (simp add: get_def)
  have f: "\<not> is_anomaly (check_price_deviation sample_library sample_numerics night_sale
       [refund, refund, refund] (rice_entities 100))"
    using tr three'
    by (simp add: rice_entities_simps sample_rows_ok night_amount_typed
        sample_unit_prices sample_price_mean)
  have g: "is_anomaly (check_price_deviation sample_library sample_numerics night_sale
       (wheat_sale # sample_history) (rice_entities 10))"
    using tw three'' sample_history_ok(2)
    by (simp add: rice_entities_simps night_amount_typed
        sample_unit_prices sample_price_mean)
  from a b c d e f sample_rows_ok(5) g show ?thesis by blast
qed

text \<open>
  C4 as stated fails in two places: a negative quantity is not refused (the detector flags
  a sale of \<open>-1\<close> unit), and with a negative mean the reported deviation is 0, not the
  quotient.
\<close>

theorem price_deviation_test_counterexample:
  "rice_entities (- 1) ''quantity'' = Some (PNum (- 1)) \<and> \<not> (0::real) < - 1 \<and>
   is_anomaly (check_price_deviation sample_library sample_numerics night_sale sample_history
     (rice_entities (- 1))) \<and>
   spec_deviation (500 / 100)
     (arithmetic_mean (unit_prices sample_library sample_numerics ''Rice''
        [refund, refund, refund])) = - 3 / 2 \<and>
   deviation_pct (check_price_deviation sample_library sample_numerics night_sale
     [refund, refund, refund] (rice_entities 100)) = Some 0"
proof -
  have neg: "is_anomaly (check_price_deviation sample_library sample_numerics night_sale
      sample_history (rice_entities (- 1)))"
    by (simp add: sample_price_run price_deviation_def)
  have three: "3 \<le> length (item_rows sample_library ''Rice'' [refund, refund, refund])"
    by (simp add: sample_item_rows)
  have hundred: "(100::real) \<noteq> 0" by simp
  from price_runs [where num = sample_numerics and t = night_sale
      and entities = "rice_entities 100" and q = 100,
      OF rice_entities_simps(1) _ sample_history_ok(3) three
      rice_entities_simps(2) hundred night_amount_typed(1)]
  have ref: "deviation_pct (check_price_deviation sample_library sample_numerics night_sale
     [refund, refund, refund] (rice_entities 100)) = Some 0"
    by (simp add: sample_unit_prices sample_price_mean price_deviation_def)
  show ?thesis
    using neg ref
    by (simp add: rice_entities_simps sample_unit_prices sample_price_mean
        spec_deviation_def)
qed

text \<open>
  C10. The price detector never reads the quantity of the transaction: changing or
  removing that field leaves the result as it is, and two transactions with the same
  amount entry give the same result.
\<close>

theorem price_quantity_from_entities:
  "check_price_deviation lib num (transaction(''quantity'' := v)) historical entities =
     check_price_deviation lib num transaction historical entities \<and>
   (transaction' ''amount'' = transaction ''amount'' \<longrightarrow>
      check_price_deviation lib num transaction' historical entities =
        check_price_deviation lib num transaction historical entities)"
proof -
  have "get (transaction(''quantity'' := v)) ''amount'' (PNum 0) =
        get transaction ''amount'' (PNum 0)"
    by (simp add: get_def)
  moreover have "get transaction' ''amount'' (PNum 0) = get transaction ''amount'' (PNum 0)"
    if "transaction' ''amount'' = transaction ''amount''"
    using that by (simp add: get_def)
  ultimately show ?thesis
    unfolding check_price_deviation_def
    using price_body_amount [of "transaction(''quantity'' := v)" transaction lib num
        historical entities]
      price_body_amount [of transaction' transaction lib num historical entities]
    by simp
qed

theorem price_quantity_from_entities_witness:
  "check_price_deviation sample_library sample_numerics (night_sale(''quantity'' \<mapsto> PNum 1))
     sample_history (rice_entities 10) =
     check_price_deviation sample_library sample_numerics night_sale sample_history
       (rice_entities 10) \<and>
   bare_sale ''amount'' = morning ''amount'' \<and>
   check_price_deviation sample_library sample_numerics bare_sale sample_history
     (rice_entities 10) =
     check_price_deviation sample_library sample_numerics morning sample_history
       (rice_entities 10)"
proof -
  have h: "bare_sale ''amount'' = morning ''amount''"
    by (simp add: bare_sale_def morning_def row_def)
  from price_quantity_from_entities [of sample_library sample_numerics night_sale
      "Some (PNum 1)" sample_history "rice_entities 10" night_sale]
    price_quantity_from_entities [of sample_library sample_numerics morning None sample_history
      "rice_entities 10" bare_sale] h
  show ?thesis by blast
qed

section \<open>The aggregator: score and decision\<close>

lemma flag_threshold: "(1 / 2 < real k / 4) \<longleftrightarrow> 3 \<le> k"
proof -
  have "(1 / 2 < real k / 4) \<longleftrightarrow> (2 < real k)" by (simp add: field_simps)
  also have "\<dots> \<longleftrightarrow> 2 < k" by (metis of_nat_less_iff of_nat_numeral)
  also have "\<dots> \<longleftrightarrow> 3 \<le> k" by arith
  finally show ?thesis .
qed

text \<open>What \<open>analyze_transaction\<close> does on a window of at least 10 transactions.\<close>

lemma analyze_many:
  assumes "10 \<le> length (get_transactions_range d uid)"
    and "checks =
      [check_amount_anomaly self lib num t (get_transactions_range d uid),
       check_quantity_anomaly num t (get_transactions_range d uid),
       check_unusual_timing lib t (get_transactions_range d uid),
       check_price_deviation lib num t (get_transactions_range d uid) ents]"
    and "k = length (filter is_anomaly checks)"
  shows "analyze_transaction self lib num d uid t ents =
     (if 3 \<le> k then
        (case generate_risk_message lib checks of
           Inl e \<Rightarrow> Inl e
         | Inr msg \<Rightarrow>
             Inr (\<lparr>anomaly_detected = True, risk_score = real k / 4, alerts = [],
                   message = Some msg, details = Some checks\<rparr>,
                  create_alert d uid ''fraud_risk'' msg ''high''))
      else Inr (\<lparr>anomaly_detected = False, risk_score = real k / 4, alerts = [],
                 message = None, details = Some checks\<rparr>, d))"
proof -
  have len: "real (length checks) = 4" by (simp add: assms(2))
  have thr: "(1 / 2 < real k / real (length checks)) \<longleftrightarrow> 3 \<le> k"
    unfolding len by (rule flag_threshold)
  have short: "\<not> length (get_transactions_range d uid) < 10" using assms(1) by simp
  show ?thesis
  proof (cases "3 \<le> k")
    case True
    with thr have "1 / 2 < real k / real (length checks)" by simp
    then show ?thesis
      unfolding analyze_transaction_def Let_def assms(2) [symmetric] assms(3) [symmetric]
      using short True by (simp add: len split: sum.splits)
  next
    case False
    with thr have "\<not> 1 / 2 < real k / real (length checks)" by simp
    then show ?thesis
      unfolding analyze_transaction_def Let_def assms(2) [symmetric] assms(3) [symmetric]
      using short False by (simp add: len)
  qed
qed

lemma flagged_le_4:
  "length (filter is_anomaly [a, b, c, d :: check_result]) \<le> 4"
  using length_filter_le [of is_anomaly "[a, b, c, d]"] by simp

lemma stored_alerts_create_alert:
  "stored_alerts (create_alert d uid kind msg sev) =
     stored_alerts d @ [\<lparr>alert_user_id = uid, alert_type = kind, alert_message = msg,
                        alert_severity = sev, alert_read = False\<rparr>]"
  "transactions_range (create_alert d uid kind msg sev) = transactions_range d"
  by (simp_all add: create_alert_def)

text \<open>The night-time sale against the sample window: three of the four detectors flag.\<close>

lemma sample_flagged:
  "filter is_anomaly
     [check_amount_anomaly (RiskAgent_init Config) sample_library sample_numerics night_sale
        sample_history,
      check_quantity_anomaly sample_numerics night_sale sample_history,
      check_unusual_timing sample_library night_sale sample_history,
      check_price_deviation sample_library sample_numerics night_sale sample_history
        (rice_entities 100)] =
     [check_amount_anomaly (RiskAgent_init Config) sample_library sample_numerics night_sale
        sample_history,
      check_quantity_anomaly sample_numerics night_sale sample_history,
      check_unusual_timing sample_library night_sale sample_history]"
  by (simp add: sample_price_result)
     (simp add: sample_amount_result sample_quantity_result sample_timing_result)

lemma sample_text_flagged:
  "filter is_anomaly
     [check_amount_anomaly (RiskAgent_init Config) sample_library sample_numerics
        text_amount_sale sample_history,
      check_quantity_anomaly sample_numerics text_amount_sale sample_history,
      check_unusual_timing sample_library text_amount_sale sample_history,
      check_price_deviation sample_library sample_numerics text_amount_sale sample_history
        (rice_entities 100)] =
     [check_amount_anomaly (RiskAgent_init Config) sample_library sample_numerics
        text_amount_sale sample_history,
      check_quantity_anomaly sample_numerics text_amount_sale sample_history,
      check_unusual_timing sample_library text_amount_sale sample_history]"
  by (simp add: sample_price_result)
     (simp add: sample_amount_result sample_quantity_result sample_timing_result)

lemma sample_render:
  "format_2f sample_library x = ''#.##''" "format_1f sample_library x = ''#.#''"
  "str_val sample_library v = ''#''" "str_int sample_library n = ''#''"
  by (simp_all add: sample_library_def)

lemma sample_clauses:
  "risk_clause sample_library
     (check_amount_anomaly (RiskAgent_init Config) sample_library sample_numerics night_sale
        sample_history) =
     Inr [''Unusual amount: '' @ rupee @ ''#.##'']"
  "risk_clause sample_library (check_quantity_anomaly sample_numerics night_sale sample_history) =
     Inr [''Unusual quantity: #'']"
  "risk_clause sample_library (check_unusual_timing sample_library night_sale sample_history) =
     Inr [''Unusual timing: #:00'']"
  unfolding sample_amount_result sample_quantity_result sample_timing_result
  by (simp_all add: risk_clause_def sample_render)

lemma sample_message:
  "generate_risk_message sample_library
     [check_amount_anomaly (RiskAgent_init Config) sample_library sample_numerics night_sale
        sample_history,
      check_quantity_anomaly sample_numerics night_sale sample_history,
      check_unusual_timing sample_library night_sale sample_history,
      check_price_deviation sample_library sample_numerics night_sale sample_history
        (rice_entities 100)] =
     Inr (''Suspicious transaction detected: Unusual amount: '' @ rupee @
          ''#.##, Unusual quantity: #, Unusual timing: #:00'')"
  unfolding generate_risk_message_def Let_def sample_flagged
  by (simp add: sample_clauses)

text \<open>
  The same sale with its amount as text: the outlier model converts and flags it, the
  quantity and the hour are flagged too, and the explanation cannot render the amount
  with two decimals. The call raises, and nothing is written.
\<close>

lemma sample_text_message:
  "generate_risk_message sample_library
     [check_amount_anomaly (RiskAgent_init Config) sample_library sample_numerics
        text_amount_sale sample_history,
      check_quantity_anomaly sample_numerics text_amount_sale sample_history,
      check_unusual_timing sample_library text_amount_sale sample_history,
      check_price_deviation sample_library sample_numerics text_amount_sale sample_history
        (rice_entities 100)] = Inl ValueError"
  unfolding explanation_fails
  by (simp add: sample_amount_result text_amount)

lemma sample_text_analyze:
  "analyze_transaction (RiskAgent_init Config) sample_library sample_numerics sample_db ''u1''
     text_amount_sale (rice_entities 100) = Inl ValueError"
proof -
  have ten: "10 \<le> length (get_transactions_range sample_db ''u1'')" by simp
  note run = analyze_many [OF ten refl refl, of "RiskAgent_init Config" sample_library
      sample_numerics text_amount_sale "rice_entities 100"]
  show ?thesis
    unfolding run sample_range sample_text_flagged sample_text_message by simp
qed

lemma sample_analyze:
  "analyze_transaction (RiskAgent_init Config) sample_library sample_numerics sample_db ''u1''
     night_sale (rice_entities 100) =
     Inr (\<lparr>anomaly_detected = True, risk_score = 3 / 4, alerts = [],
           message = Some (''Suspicious transaction detected: Unusual amount: '' @ rupee @
                           ''#.##, Unusual quantity: #, Unusual timing: #:00''),
           details = Some
             [check_amount_anomaly (RiskAgent_init Config) sample_library sample_numerics
                night_sale sample_history,
              check_quantity_anomaly sample_numerics night_sale sample_history,
              check_unusual_timing sample_library night_sale sample_history,
              check_price_deviation sample_library sample_numerics night_sale sample_history
                (rice_entities 100)]\<rparr>,
          create_alert sample_db ''u1'' ''fraud_risk''
            (''Suspicious transaction detected: Unusual amount: '' @ rupee @
             ''#.##, Unusual quantity: #, Unusual timing: #:00'') ''high'')"
proof -
  have ten: "10 \<le> length (get_transactions_range sample_db ''u1'')" by simp
  note run = analyze_many [OF ten refl refl, of "RiskAgent_init Config" sample_library
      sample_numerics night_sale "rice_entities 100"]
  show ?thesis
    unfolding run sample_range sample_flagged sample_message by simp
qed

text \<open>
  C2. With fewer than 10 historical transactions, \<open>analyze_transaction\<close> returns the
  initial verdict (score 0, nothing detected, no detector result, no message) and
  leaves the alert store as it was, whatever the transaction, the entities and the
  library are.
\<close>

theorem analyze_insufficient_history:
  assumes "length (get_transactions_range d uid) < 10"
  shows "analyze_transaction self lib num d uid transaction entities =
           Inr (\<lparr>anomaly_detected = False, risk_score = 0, alerts = [],
                 message = None, details = None\<rparr>, d)"
  using assms by (simp add: analyze_transaction_def Let_def)

theorem analyze_insufficient_history_witness:
  "length (get_transactions_range empty_db ''u1'') < 10 \<and>
   analyze_transaction (RiskAgent_init Config) sample_library sample_numerics empty_db ''u1''
     night_sale night_entities =
     Inr (\<lparr>anomaly_detected = False, risk_score = 0, alerts = [],
           message = None, details = None\<rparr>, empty_db)"
proof -
  have h: "length (get_transactions_range empty_db ''u1'') < 10" by simp
  from analyze_insufficient_history [OF h] show ?thesis using h by blast
qed

text \<open>
  C1. On a window of at least 10 transactions, every verdict \<open>analyze_transaction\<close>
  returns carries the results of the four detectors, a \<open>risk_score\<close> that is the number of
  flagged detectors divided by 4, hence one of 0, 0.25, 0.5, 0.75 and 1, and
  \<open>anomaly_detected\<close> set exactly when the score exceeds 0.5, which is exactly when at
  least 3 of the 4 detectors flagged. A verdict is returned unless at least 3 detectors
  flagged and the explanation cannot be built, which happens only when the amount is
  flagged and is a value that has no rendering with two decimals; in particular a verdict
  is returned for every transaction whose amount is a number or is missing.
\<close>

theorem analyze_risk_score:
  assumes "10 \<le> length (get_transactions_range d uid)"
    and "checks =
      [check_amount_anomaly self lib num transaction (get_transactions_range d uid),
       check_quantity_anomaly num transaction (get_transactions_range d uid),
       check_unusual_timing lib transaction (get_transactions_range d uid),
       check_price_deviation lib num transaction (get_transactions_range d uid) entities]"
    and "k = length (filter is_anomaly checks)"
  shows "(\<forall>resp d'.
            analyze_transaction self lib num d uid transaction entities = Inr (resp, d') \<longrightarrow>
              details resp = Some checks \<and>
              risk_score resp = real k / 4 \<and>
              risk_score resp \<in> {0, 1 / 4, 1 / 2, 3 / 4, 1} \<and>
              (anomaly_detected resp \<longleftrightarrow> 1 / 2 < risk_score resp) \<and>
              (anomaly_detected resp \<longleftrightarrow> 3 \<le> k)) \<and>
         ((\<exists>resp d'.
             analyze_transaction self lib num d uid transaction entities = Inr (resp, d')) \<longleftrightarrow>
            k < 3 \<or> (\<exists>msg. generate_risk_message lib checks = Inr msg)) \<and>
         (transaction ''amount'' = None \<or> (\<exists>x. transaction ''amount'' = Some (PNum x)) \<longrightarrow>
            (\<exists>resp d'.
               analyze_transaction self lib num d uid transaction entities = Inr (resp, d'))) \<and>
         (\<forall>e. analyze_transaction self lib num d uid transaction entities = Inl e \<longrightarrow>
            3 \<le> k \<and> is_anomaly (check_amount_anomaly self lib num transaction
                                    (get_transactions_range d uid)) \<and>
            (\<exists>v. transaction ''amount'' = Some v \<and> render_2f lib v = Inl e))"
proof -
  note run = analyze_many [OF assms]
  have "k \<le> 4" unfolding assms(3) assms(2) by (rule flagged_le_4)
  then have kcases: "k = 0 \<or> k = 1 \<or> k = 2 \<or> k = 3 \<or> k = 4" by arith
  have mem: "real k / 4 \<in> {0, 1 / 4, 1 / 2, 3 / 4, 1}" using kcases by auto
  have thr: "(1 / 2 < real k / 4) = (3 \<le> k)" by (rule flag_threshold)
  have verdict: "details resp = Some checks \<and>
              risk_score resp = real k / 4 \<and>
              risk_score resp \<in> {0, 1 / 4, 1 / 2, 3 / 4, 1} \<and>
              (anomaly_detected resp \<longleftrightarrow> 1 / 2 < risk_score resp) \<and>
              (anomaly_detected resp \<longleftrightarrow> 3 \<le> k)"
    if "analyze_transaction self lib num d uid transaction entities = Inr (resp, d')"
    for resp d'
  proof -
    have det: "details resp = Some checks" and rs: "risk_score resp = real k / 4"
      and ad: "anomaly_detected resp = (3 \<le> k)"
      using that unfolding run by (auto split: if_splits sum.splits)
    show ?thesis unfolding rs ad thr using det mem by blast
  qed
  have returns: "(\<exists>resp d'.
             analyze_transaction self lib num d uid transaction entities = Inr (resp, d')) \<longleftrightarrow>
            k < 3 \<or> (\<exists>msg. generate_risk_message lib checks = Inr msg)"
    unfolding run by (cases "3 \<le> k") (auto split: sum.splits)
  have number: "\<exists>resp d'.
               analyze_transaction self lib num d uid transaction entities = Inr (resp, d')"
    if "transaction ''amount'' = None \<or> (\<exists>x. transaction ''amount'' = Some (PNum x))"
  proof -
    from explanation_of_number [where t = transaction and lib = lib and self = self
        and num = num and h = "get_transactions_range d uid" and ents = entities, OF that]
    have "\<exists>msg. generate_risk_message lib checks = Inr msg"
      unfolding assms(2) .
    with returns show ?thesis by blast
  qed
  have raises: "3 \<le> k \<and> is_anomaly (check_amount_anomaly self lib num transaction
                                    (get_transactions_range d uid)) \<and>
            (\<exists>v. transaction ''amount'' = Some v \<and> render_2f lib v = Inl e)"
    if "analyze_transaction self lib num d uid transaction entities = Inl e" for e
  proof -
    from that have k: "3 \<le> k" and "generate_risk_message lib checks = Inl e"
      unfolding run by (auto split: if_splits sum.splits)
    then show ?thesis unfolding assms(2) explanation_fails by blast
  qed
  from verdict returns number raises show ?thesis by blast
qed

theorem analyze_risk_score_witness:
  "10 \<le> length (get_transactions_range sample_db ''u1'') \<and>
   night_sale ''amount'' = Some (PNum 500) \<and>
   (\<exists>resp d'.
      analyze_transaction (RiskAgent_init Config) sample_library sample_numerics sample_db ''u1''
        night_sale (rice_entities 100) = Inr (resp, d') \<and>
      risk_score resp = 3 / 4 \<and> anomaly_detected resp) \<and>
   analyze_transaction (RiskAgent_init Config) sample_library sample_numerics sample_db ''u1''
     text_amount_sale (rice_entities 100) = Inl ValueError \<and>
   is_anomaly (check_amount_anomaly (RiskAgent_init Config) sample_library sample_numerics
     text_amount_sale (get_transactions_range sample_db ''u1''))"
proof -
  have h: "10 \<le> length (get_transactions_range sample_db ''u1'')" by simp
  note night_run = analyze_risk_score [OF h refl refl, of "RiskAgent_init Config" sample_library
      sample_numerics night_sale "rice_entities 100"]
  note txt_run = analyze_risk_score [OF h refl refl, of "RiskAgent_init Config" sample_library
      sample_numerics text_amount_sale "rice_entities 100"]
  have a: "night_sale ''amount'' = None \<or> (\<exists>x. night_sale ''amount'' = Some (PNum x))"
    by (simp add: night_amount)
  from night_run [THEN conjunct2, THEN conjunct2, THEN conjunct1, THEN mp, OF a]
  obtain resp d' where res: "analyze_transaction (RiskAgent_init Config) sample_library
      sample_numerics sample_db ''u1'' night_sale (rice_entities 100) = Inr (resp, d')"
    by blast
  from night_run [THEN conjunct1, THEN spec, THEN spec, THEN mp, OF res]
  have "risk_score resp = 3 / 4 \<and> anomaly_detected resp"
    unfolding sample_range sample_flagged by simp
  with res have A: "\<exists>resp d'.
      analyze_transaction (RiskAgent_init Config) sample_library sample_numerics sample_db ''u1''
        night_sale (rice_entities 100) = Inr (resp, d') \<and>
      risk_score resp = 3 / 4 \<and> anomaly_detected resp"
    by blast
  from txt_run [THEN conjunct2, THEN conjunct2, THEN conjunct2, THEN spec, THEN mp,
      OF sample_text_analyze]
  have B: "is_anomaly (check_amount_anomaly (RiskAgent_init Config) sample_library
      sample_numerics text_amount_sale (get_transactions_range sample_db ''u1''))"
    by blast
  from h night_amount A sample_text_analyze B show ?thesis by blast
qed

section \<open>Failures inside a detector\<close>

text \<open>
  On a window of at least 10 transactions: a verdict carries the four results; the call
  raises only out of the explanation, after the amount detector has returned a flagged
  result of its own; and it returns whenever the amount detector fails or does not flag.
\<close>

lemma analyze_outcome:
  assumes "10 \<le> length (get_transactions_range d uid)"
  shows "(\<forall>resp d'. analyze_transaction self lib num d uid t ents = Inr (resp, d') \<longrightarrow>
            details resp =
              Some [check_amount_anomaly self lib num t (get_transactions_range d uid),
                    check_quantity_anomaly num t (get_transactions_range d uid),
                    check_unusual_timing lib t (get_transactions_range d uid),
                    check_price_deviation lib num t (get_transactions_range d uid) ents]) \<and>
         (\<forall>e'. analyze_transaction self lib num d uid t ents = Inl e' \<longrightarrow>
            check_amount_anomaly_body self lib num t (get_transactions_range d uid) =
              Inr (check_amount_anomaly self lib num t (get_transactions_range d uid)) \<and>
            is_anomaly (check_amount_anomaly self lib num t (get_transactions_range d uid)) \<and>
            (\<exists>v. t ''amount'' = Some v \<and> render_2f lib v = Inl e')) \<and>
         (\<not> is_anomaly (check_amount_anomaly self lib num t (get_transactions_range d uid)) \<longrightarrow>
            (\<exists>resp d'. analyze_transaction self lib num d uid t ents = Inr (resp, d')))"
proof -
  note run = analyze_many [OF assms refl refl, of self lib num t ents]
  have det: "details resp =
              Some [check_amount_anomaly self lib num t (get_transactions_range d uid),
                    check_quantity_anomaly num t (get_transactions_range d uid),
                    check_unusual_timing lib t (get_transactions_range d uid),
                    check_price_deviation lib num t (get_transactions_range d uid) ents]"
    if "analyze_transaction self lib num d uid t ents = Inr (resp, d')" for resp d'
    using that unfolding run by (auto split: if_splits sum.splits)
  have fails: "generate_risk_message lib
          [check_amount_anomaly self lib num t (get_transactions_range d uid),
           check_quantity_anomaly num t (get_transactions_range d uid),
           check_unusual_timing lib t (get_transactions_range d uid),
           check_price_deviation lib num t (get_transactions_range d uid) ents] = Inl e'"
    if "analyze_transaction self lib num d uid t ents = Inl e'" for e'
    using that unfolding run by (auto split: if_splits sum.splits)
  have raises: "check_amount_anomaly_body self lib num t (get_transactions_range d uid) =
              Inr (check_amount_anomaly self lib num t (get_transactions_range d uid)) \<and>
            is_anomaly (check_amount_anomaly self lib num t (get_transactions_range d uid)) \<and>
            (\<exists>v. t ''amount'' = Some v \<and> render_2f lib v = Inl e')"
    if "analyze_transaction self lib num d uid t ents = Inl e'" for e'
  proof -
    from fails [OF that]
    have fl: "is_anomaly (check_amount_anomaly self lib num t (get_transactions_range d uid))"
      and v: "\<exists>v. t ''amount'' = Some v \<and> render_2f lib v = Inl e'"
      unfolding explanation_fails by blast+
    from amount_flagged [OF fl] fl v show ?thesis by blast
  qed
  have returns: "\<exists>resp d'. analyze_transaction self lib num d uid t ents = Inr (resp, d')"
    if "\<not> is_anomaly (check_amount_anomaly self lib num t (get_transactions_range d uid))"
  proof (cases "analyze_transaction self lib num d uid t ents")
    case (Inl e')
    from raises [OF this] that show ?thesis by blast
  next
    case (Inr res)
    then show ?thesis by (cases res) blast
  qed
  from det raises returns show ?thesis by blast
qed

lemma sample_bodies:
  "check_amount_anomaly_body (RiskAgent_init Config) failing_library num night_sale
     sample_history = Inl ValueError"
  "check_quantity_anomaly_body num night_sale (unfilled # sample_history) = Inl TypeError"
  "check_unusual_timing_body sample_library Map.empty sample_history = Inl KeyError"
  "check_price_deviation_body sample_library num night_sale (unfilled # sample_history)
     (rice_entities 10) = Inl AttributeError"
proof -
  show "check_amount_anomaly_body (RiskAgent_init Config) failing_library num night_sale
      sample_history = Inl ValueError"
    by (simp add: check_amount_anomaly_body_def positive_amounts_typed [OF sample_typed_a]
        sample_amount_rows failing_forest)
  have "\<not> list_all (number_or_absent ''quantity'') (unfilled # sample_history)"
    by (simp add: unfilled_quantity)
  from positive_quantities_untyped [OF this]
  show "check_quantity_anomaly_body num night_sale (unfilled # sample_history) = Inl TypeError"
    by (simp add: check_quantity_anomaly_body_def)
  show "check_unusual_timing_body sample_library Map.empty sample_history = Inl KeyError"
    by (simp add: check_unusual_timing_body_def getitem_def)
  have "lower sample_library (get unfilled ''item'' (PStr [])) = Inl AttributeError"
    by (simp add: get_def unfilled_def)
  then have "historical_prices sample_library num (PStr ''Rice'') (unfilled # sample_history) =
      Inl AttributeError"
    unfolding historical_prices_Cons by simp
  then show "check_price_deviation_body sample_library num night_sale
      (unfilled # sample_history) (rice_entities 10) = Inl AttributeError"
    by (simp add: check_price_deviation_body_def rice_entities_simps)
qed

text \<open>
  C6, as amended. An exception raised while a detector evaluates is absorbed by the
  detector: the result is unflagged and carries the error note. This covers a model that
  cannot be fitted, a transaction without timestamp or with one that does not parse, and
  a field of the window that is missing or cannot be compared. Too little data and a
  standard deviation that is not positive are not exceptions: the result is unflagged and
  carries no error note. On a window of at least 10 transactions every verdict of
  \<open>analyze_transaction\<close> holds the four results, in the order amount, quantity, timing,
  price, and a failure of a detector never makes the call raise: the call raises only out
  of the explanation, after the amount detector has returned a flagged result, and it
  returns whenever the amount detector fails or does not flag.
\<close>

theorem detector_failures_absorbed:
  "(is_anomaly (failed name e) = False \<and> error (failed name e) = Some e) \<and>
   (check_amount_anomaly_body self lib num t h = Inl e \<longrightarrow>
      check_amount_anomaly self lib num t h = failed ''amount'' e) \<and>
   (check_quantity_anomaly_body num t h = Inl e \<longrightarrow>
      check_quantity_anomaly num t h = failed ''quantity'' e) \<and>
   (check_unusual_timing_body lib t h = Inl e \<longrightarrow>
      check_unusual_timing lib t h = failed ''timing'' e) \<and>
   (check_price_deviation_body lib num t h ents = Inl e \<longrightarrow>
      check_price_deviation lib num t h ents = failed ''price'' e) \<and>
   (list_all (\<lambda>txn. \<exists>a. txn ''amount'' = Some (PNum a)) h \<and>
    10 \<le> length (positive_amount_rows h) \<and>
    IsolationForest lib (anomaly_threshold self) 42 (positive_amount_values h) = Inl e \<longrightarrow>
      check_amount_anomaly self lib num t h = failed ''amount'' e) \<and>
   (t ''created_at'' = None \<longrightarrow> check_unusual_timing lib t h = failed ''timing'' KeyError) \<and>
   (t ''created_at'' = Some (PStr s) \<and> fromisoformat lib s = None \<longrightarrow>
      check_unusual_timing lib t h = failed ''timing'' ValueError) \<and>
   (\<not> list_all (number_or_absent ''quantity'') h \<longrightarrow>
      check_quantity_anomaly num t h = failed ''quantity'' TypeError) \<and>
   (\<not> list_all (\<lambda>txn. \<exists>a. txn ''amount'' = Some (PNum a)) h \<longrightarrow>
      is_anomaly (check_amount_anomaly self lib num t h) = False \<and>
      error (check_amount_anomaly self lib num t h) \<noteq> None) \<and>
   (list_all (\<lambda>txn. \<exists>a. txn ''amount'' = Some (PNum a)) h \<and>
    length (positive_amount_rows h) < 10 \<longrightarrow>
      check_amount_anomaly self lib num t h = not_anomalous ''amount'') \<and>
   (list_all (number_or_absent ''quantity'') h \<and> length (positive_quantity_rows h) < 10 \<longrightarrow>
      check_quantity_anomaly num t h = not_anomalous ''quantity'') \<and>
   (is_anomaly (not_anomalous name) = False \<and> error (not_anomalous name) = None) \<and>
   (list_all (number_or_absent ''quantity'') h \<and> number_or_absent ''quantity'' t \<and>
    10 \<le> length (positive_quantity_rows h) \<and>
    np_std num (positive_quantity_values h) \<le> 0 \<longrightarrow>
      is_anomaly (check_quantity_anomaly num t h) = False \<and>
      z_score (check_quantity_anomaly num t h) = Some 0 \<and>
      error (check_quantity_anomaly num t h) = None) \<and>
   (10 \<le> length (get_transactions_range d uid) \<longrightarrow>
      (\<forall>resp d'. analyze_transaction self lib num d uid t ents = Inr (resp, d') \<longrightarrow>
         details resp =
           Some [check_amount_anomaly self lib num t (get_transactions_range d uid),
                 check_quantity_anomaly num t (get_transactions_range d uid),
                 check_unusual_timing lib t (get_transactions_range d uid),
                 check_price_deviation lib num t (get_transactions_range d uid) ents]) \<and>
      (\<forall>e'. analyze_transaction self lib num d uid t ents = Inl e' \<longrightarrow>
         check_amount_anomaly_body self lib num t (get_transactions_range d uid) =
           Inr (check_amount_anomaly self lib num t (get_transactions_range d uid)) \<and>
         is_anomaly (check_amount_anomaly self lib num t (get_transactions_range d uid)) \<and>
         (\<exists>v. t ''amount'' = Some v \<and> render_2f lib v = Inl e')) \<and>
      (\<not> is_anomaly (check_amount_anomaly self lib num t (get_transactions_range d uid)) \<longrightarrow>
         (\<exists>resp d'. analyze_transaction self lib num d uid t ents = Inr (resp, d'))))"
proof -
  have 1: "is_anomaly (failed name e) = False \<and> error (failed name e) = Some e" by simp
  have 2: "check_amount_anomaly_body self lib num t h = Inl e \<longrightarrow>
      check_amount_anomaly self lib num t h = failed ''amount'' e"
    by (simp add: check_amount_anomaly_def absorb_Inl)
  have 3: "check_quantity_anomaly_body num t h = Inl e \<longrightarrow>
      check_quantity_anomaly num t h = failed ''quantity'' e"
    by (simp add: check_quantity_anomaly_def absorb_Inl)
  have 4: "check_unusual_timing_body lib t h = Inl e \<longrightarrow>
      check_unusual_timing lib t h = failed ''timing'' e"
    by (simp add: check_unusual_timing_def absorb_Inl)
  have 5: "check_price_deviation_body lib num t h ents = Inl e \<longrightarrow>
      check_price_deviation lib num t h ents = failed ''price'' e"
    by (simp add: check_price_deviation_def absorb_Inl)
  have 6: "list_all (\<lambda>txn. \<exists>a. txn ''amount'' = Some (PNum a)) h \<and>
    10 \<le> length (positive_amount_rows h) \<and>
    IsolationForest lib (anomaly_threshold self) 42 (positive_amount_values h) = Inl e \<longrightarrow>
      check_amount_anomaly self lib num t h = failed ''amount'' e"
    using amount_fit_fails by blast
  have 7: "t ''created_at'' = None \<longrightarrow> check_unusual_timing lib t h = failed ''timing'' KeyError"
    using timing_missing by blast
  have 8: "t ''created_at'' = Some (PStr s) \<and> fromisoformat lib s = None \<longrightarrow>
      check_unusual_timing lib t h = failed ''timing'' ValueError"
    using timing_unparsable by blast
  have 9: "\<not> list_all (number_or_absent ''quantity'') h \<longrightarrow>
      check_quantity_anomaly num t h = failed ''quantity'' TypeError"
    using quantity_error by blast
  have 10: "\<not> list_all (\<lambda>txn. \<exists>a. txn ''amount'' = Some (PNum a)) h \<longrightarrow>
      is_anomaly (check_amount_anomaly self lib num t h) = False \<and>
      error (check_amount_anomaly self lib num t h) \<noteq> None"
    using amount_error by blast
  have 11: "list_all (\<lambda>txn. \<exists>a. txn ''amount'' = Some (PNum a)) h \<and>
    length (positive_amount_rows h) < 10 \<longrightarrow>
      check_amount_anomaly self lib num t h = not_anomalous ''amount''"
    using amount_few_typed by blast
  have 12: "list_all (number_or_absent ''quantity'') h \<and> length (positive_quantity_rows h) < 10 \<longrightarrow>
      check_quantity_anomaly num t h = not_anomalous ''quantity''"
    using quantity_few_typed by blast
  have 13: "is_anomaly (not_anomalous name) = False \<and> error (not_anomalous name) = None"
    by simp
  have 14: "list_all (number_or_absent ''quantity'') h \<and> number_or_absent ''quantity'' t \<and>
    10 \<le> length (positive_quantity_rows h) \<and>
    np_std num (positive_quantity_values h) \<le> 0 \<longrightarrow>
      is_anomaly (check_quantity_anomaly num t h) = False \<and>
      z_score (check_quantity_anomaly num t h) = Some 0 \<and>
      error (check_quantity_anomaly num t h) = None"
  proof (intro impI, elim conjE)
    assume a: "list_all (number_or_absent ''quantity'') h" "number_or_absent ''quantity'' t"
      "10 \<le> length (positive_quantity_rows h)" "np_std num (positive_quantity_values h) \<le> 0"
    show "is_anomaly (check_quantity_anomaly num t h) = False \<and>
      z_score (check_quantity_anomaly num t h) = Some 0 \<and>
      error (check_quantity_anomaly num t h) = None"
      using a(4) by (simp add: quantity_runs [OF a(1) a(3) a(2)] runtime_z_score_def)
  qed
  have 15: "10 \<le> length (get_transactions_range d uid) \<longrightarrow>
      (\<forall>resp d'. analyze_transaction self lib num d uid t ents = Inr (resp, d') \<longrightarrow>
         details resp =
           Some [check_amount_anomaly self lib num t (get_transactions_range d uid),
                 check_quantity_anomaly num t (get_transactions_range d uid),
                 check_unusual_timing lib t (get_transactions_range d uid),
                 check_price_deviation lib num t (get_transactions_range d uid) ents]) \<and>
      (\<forall>e'. analyze_transaction self lib num d uid t ents = Inl e' \<longrightarrow>
         check_amount_anomaly_body self lib num t (get_transactions_range d uid) =
           Inr (check_amount_anomaly self lib num t (get_transactions_range d uid)) \<and>
         is_anomaly (check_amount_anomaly self lib num t (get_transactions_range d uid)) \<and>
         (\<exists>v. t ''amount'' = Some v \<and> render_2f lib v = Inl e')) \<and>
      (\<not> is_anomaly (check_amount_anomaly self lib num t (get_transactions_range d uid)) \<longrightarrow>
         (\<exists>resp d'. analyze_transaction self lib num d uid t ents = Inr (resp, d')))"
    by (intro impI) (rule analyze_outcome)
  from 1 2 3 4 5 6 7 8 9 10 11 12 13 14 15 show ?thesis
    by - ((rule conjI, assumption)+, assumption)
qed

theorem detector_failures_absorbed_witness:
  "check_amount_anomaly (RiskAgent_init Config) failing_library sample_numerics night_sale
     sample_history = failed ''amount'' ValueError \<and>
   check_quantity_anomaly sample_numerics night_sale (unfilled # sample_history) =
     failed ''quantity'' TypeError \<and>
   check_unusual_timing sample_library Map.empty sample_history = failed ''timing'' KeyError \<and>
   check_unusual_timing sample_library misdated_sale sample_history =
     failed ''timing'' ValueError \<and>
   check_price_deviation sample_library sample_numerics night_sale (unfilled # sample_history)
     (rice_entities 10) = failed ''price'' AttributeError \<and>
   error (check_amount_anomaly (RiskAgent_init Config) sample_library sample_numerics night_sale
     [Map.empty]) \<noteq> None \<and>
   check_amount_anomaly (RiskAgent_init Config) sample_library sample_numerics night_sale [] =
     not_anomalous ''amount'' \<and>
   check_quantity_anomaly sample_numerics night_sale [] = not_anomalous ''quantity'' \<and>
   (is_anomaly (check_quantity_anomaly sample_numerics night_sale flat_history) = False \<and>
    z_score (check_quantity_anomaly sample_numerics night_sale flat_history) = Some 0 \<and>
    error (check_quantity_anomaly sample_numerics night_sale flat_history) = None) \<and>
   (\<exists>resp d'. analyze_transaction (RiskAgent_init Config) failing_library sample_numerics
        sample_db ''u1'' Map.empty Map.empty = Inr (resp, d') \<and>
      details resp =
        Some [check_amount_anomaly (RiskAgent_init Config) failing_library sample_numerics
                Map.empty sample_history,
              check_quantity_anomaly sample_numerics Map.empty sample_history,
              check_unusual_timing failing_library Map.empty sample_history,
              check_price_deviation failing_library sample_numerics Map.empty sample_history
                Map.empty]) \<and>
   analyze_transaction (RiskAgent_init Config) sample_library sample_numerics sample_db ''u1''
     text_amount_sale (rice_entities 100) = Inl ValueError \<and>
   check_amount_anomaly_body (RiskAgent_init Config) sample_library sample_numerics
     text_amount_sale sample_history =
     Inr (check_amount_anomaly (RiskAgent_init Config) sample_library sample_numerics
       text_amount_sale sample_history)"
proof -
  note a = detector_failures_absorbed [where self = "RiskAgent_init Config"
      and lib = failing_library and num = sample_numerics and t = night_sale
      and h = sample_history and e = ValueError]
  note b = detector_failures_absorbed [where lib = sample_library and t = Map.empty
      and h = sample_history and e = KeyError]
  note c = detector_failures_absorbed [where num = sample_numerics and t = night_sale
      and h = "unfilled # sample_history" and e = TypeError]
  note d = detector_failures_absorbed [where t = night_sale and h = "[]"
      and self = "RiskAgent_init Config" and lib = sample_library and num = sample_numerics]
  note e = detector_failures_absorbed [where self = "RiskAgent_init Config"
      and lib = failing_library and num = sample_numerics and d = sample_db
      and uid = "''u1''" and t = Map.empty and ents = Map.empty]
  note f = detector_failures_absorbed [where lib = sample_library and t = misdated_sale
      and h = sample_history and s = "''yesterday''"]
  note g = detector_failures_absorbed [where lib = sample_library and num = sample_numerics
      and t = night_sale and h = "unfilled # sample_history"
      and ents = "rice_entities 10" and e = AttributeError]
  note k = detector_failures_absorbed [where self = "RiskAgent_init Config"
      and lib = sample_library and num = sample_numerics and t = night_sale
      and h = "[Map.empty]"]
  note r = detector_failures_absorbed [where self = "RiskAgent_init Config"
      and lib = sample_library and num = sample_numerics and d = sample_db
      and uid = "''u1''" and t = text_amount_sale and ents = "rice_entities 100"]
  note z = detector_failures_absorbed [where num = sample_numerics and t = night_sale
      and h = flat_history]
  have hz: "list_all (number_or_absent ''quantity'') flat_history \<and>
    number_or_absent ''quantity'' night_sale \<and>
    10 \<le> length (positive_quantity_rows flat_history) \<and>
    np_std sample_numerics (positive_quantity_values flat_history) \<le> 0"
    by (simp add: flat_typed night_quantity flat_rows flat_quantity_values flat_std)
  have ha: "list_all (\<lambda>txn. \<exists>a. txn ''amount'' = Some (PNum a)) sample_history \<and>
    10 \<le> length (positive_amount_rows sample_history) \<and>
    IsolationForest failing_library (anomaly_threshold (RiskAgent_init Config)) 42
      (positive_amount_values sample_history) = Inl ValueError"
    by (simp add: sample_typed_a sample_amount_rows failing_forest)
  have hb: "Map.empty ''created_at'' = (None :: pyval option)" by simp
  have hc: "\<not> list_all (number_or_absent ''quantity'') (unfilled # sample_history)"
    by (simp add: unfilled_quantity)
  have hd: "list_all (number_or_absent ''quantity'') [] \<and> length (positive_quantity_rows []) < 10"
    by (simp add: positive_quantity_rows_def)
  have hd': "list_all (\<lambda>txn. \<exists>a. txn ''amount'' = Some (PNum a)) [] \<and>
    length (positive_amount_rows []) < 10"
    by (simp add: positive_amount_rows_def)
  have he: "10 \<le> length (get_transactions_range sample_db ''u1'')" by simp
  have hf: "misdated_sale ''created_at'' = Some (PStr ''yesterday'') \<and>
    fromisoformat sample_library ''yesterday'' = None"
    by (simp add: misdated_sale_def sample_library_def)
  have hk: "\<not> list_all (\<lambda>txn. \<exists>a. txn ''amount'' = Some (PNum a)) [Map.empty]"
    by simp
  from a [THEN conjunct2, THEN conjunct2, THEN conjunct2, THEN conjunct2, THEN conjunct2, THEN conjunct1, THEN mp, OF ha] a [THEN conjunct2, THEN conjunct1, THEN mp, OF sample_bodies(1)]
  have A: "check_amount_anomaly (RiskAgent_init Config) failing_library sample_numerics
      night_sale sample_history = failed ''amount'' ValueError" by blast
  from b [THEN conjunct2, THEN conjunct2, THEN conjunct2, THEN conjunct2, THEN conjunct2, THEN conjunct2, THEN conjunct1, THEN mp, OF hb] b [THEN conjunct2, THEN conjunct2, THEN conjunct2, THEN conjunct1, THEN mp, OF sample_bodies(3)]
  have B: "check_unusual_timing sample_library Map.empty sample_history =
      failed ''timing'' KeyError" by blast
  from c [THEN conjunct2, THEN conjunct2, THEN conjunct2, THEN conjunct2, THEN conjunct2, THEN conjunct2, THEN conjunct2, THEN conjunct2, THEN conjunct1, THEN mp, OF hc] c [THEN conjunct2, THEN conjunct2, THEN conjunct1, THEN mp, OF sample_bodies(2)]
  have C: "check_quantity_anomaly sample_numerics night_sale (unfilled # sample_history) =
      failed ''quantity'' TypeError" by blast
  from d [THEN conjunct2, THEN conjunct2, THEN conjunct2, THEN conjunct2, THEN conjunct2, THEN conjunct2, THEN conjunct2, THEN conjunct2, THEN conjunct2, THEN conjunct2, THEN conjunct2, THEN conjunct1, THEN mp, OF hd]
  have D: "check_quantity_anomaly sample_numerics night_sale [] = not_anomalous ''quantity''" .
  from d [THEN conjunct2, THEN conjunct2, THEN conjunct2, THEN conjunct2, THEN conjunct2, THEN conjunct2, THEN conjunct2, THEN conjunct2, THEN conjunct2, THEN conjunct2, THEN conjunct1, THEN mp, OF hd']
  have D': "check_amount_anomaly (RiskAgent_init Config) sample_library sample_numerics
     night_sale [] = not_anomalous ''amount''" .
  have "check_amount_anomaly (RiskAgent_init Config) failing_library sample_numerics Map.empty
      sample_history = failed ''amount'' ValueError"
    using amount_fit_fails ha by blast
  then have quiet: "\<not> is_anomaly (check_amount_anomaly (RiskAgent_init Config) failing_library
      sample_numerics Map.empty (get_transactions_range sample_db ''u1''))"
    by simp
  note agg = e [THEN conjunct2, THEN conjunct2, THEN conjunct2, THEN conjunct2, THEN conjunct2, THEN conjunct2, THEN conjunct2, THEN conjunct2, THEN conjunct2, THEN conjunct2, THEN conjunct2, THEN conjunct2, THEN conjunct2, THEN conjunct2, THEN mp, OF he]
  from agg [THEN conjunct2, THEN conjunct2, THEN mp, OF quiet]
  obtain resp d' where res: "analyze_transaction (RiskAgent_init Config) failing_library
      sample_numerics sample_db ''u1'' Map.empty Map.empty = Inr (resp, d')"
    by blast
  from agg [THEN conjunct1, THEN spec, THEN spec, THEN mp, OF res] res
  have E: "\<exists>resp d'. analyze_transaction (RiskAgent_init Config) failing_library
        sample_numerics sample_db ''u1'' Map.empty Map.empty = Inr (resp, d') \<and>
      details resp =
        Some [check_amount_anomaly (RiskAgent_init Config) failing_library sample_numerics
                Map.empty sample_history,
              check_quantity_anomaly sample_numerics Map.empty sample_history,
              check_unusual_timing failing_library Map.empty sample_history,
              check_price_deviation failing_library sample_numerics Map.empty sample_history
                Map.empty]"
    unfolding sample_range by blast
  from r [THEN conjunct2, THEN conjunct2, THEN conjunct2, THEN conjunct2, THEN conjunct2, THEN conjunct2, THEN conjunct2, THEN conjunct2, THEN conjunct2, THEN conjunct2, THEN conjunct2, THEN conjunct2, THEN conjunct2, THEN conjunct2, THEN mp, OF he, THEN conjunct2, THEN conjunct1, THEN spec, THEN mp,
      OF sample_text_analyze]
  have R: "check_amount_anomaly_body (RiskAgent_init Config) sample_library sample_numerics
     text_amount_sale sample_history =
     Inr (check_amount_anomaly (RiskAgent_init Config) sample_library sample_numerics
       text_amount_sale sample_history)"
    unfolding sample_range by blast
  from f [THEN conjunct2, THEN conjunct2, THEN conjunct2, THEN conjunct2, THEN conjunct2, THEN conjunct2, THEN conjunct2, THEN conjunct1, THEN mp, OF hf]
  have F: "check_unusual_timing sample_library misdated_sale sample_history =
     failed ''timing'' ValueError" .
  from g [THEN conjunct2, THEN conjunct2, THEN conjunct2, THEN conjunct2, THEN conjunct1, THEN mp, OF sample_bodies(4)]
  have G: "check_price_deviation sample_library sample_numerics night_sale
     (unfilled # sample_history) (rice_entities 10) = failed ''price'' AttributeError" .
  from k [THEN conjunct2, THEN conjunct2, THEN conjunct2, THEN conjunct2, THEN conjunct2, THEN conjunct2, THEN conjunct2, THEN conjunct2, THEN conjunct2, THEN conjunct1, THEN mp, OF hk]
  have K: "error (check_amount_anomaly (RiskAgent_init Config) sample_library sample_numerics
      night_sale [Map.empty]) \<noteq> None" by blast
  from z [THEN conjunct2, THEN conjunct2, THEN conjunct2, THEN conjunct2, THEN conjunct2, THEN conjunct2, THEN conjunct2, THEN conjunct2, THEN conjunct2, THEN conjunct2, THEN conjunct2, THEN conjunct2, THEN conjunct2, THEN conjunct1, THEN mp, OF hz]
  have Z: "is_anomaly (check_quantity_anomaly sample_numerics night_sale flat_history) = False \<and>
      z_score (check_quantity_anomaly sample_numerics night_sale flat_history) = Some 0 \<and>
      error (check_quantity_anomaly sample_numerics night_sale flat_history) = None" .
  from A C B F G K D' D Z E sample_text_analyze R show ?thesis
    by - ((rule conjI, assumption)+, assumption)
qed

text \<open>
  C6 as stated fails where it promises an error note for insufficient data and for a
  division by zero: on an empty window, and on a window of deviation 0, the quantity
  detector returns unflagged without a note.
\<close>

theorem detector_failures_absorbed_counterexample:
  "length (positive_quantity_rows []) < 10 \<and>
   is_anomaly (check_quantity_anomaly sample_numerics night_sale []) = False \<and>
   error (check_quantity_anomaly sample_numerics night_sale []) = None \<and>
   np_std sample_numerics (positive_quantity_values flat_history) = 0 \<and>
   is_anomaly (check_quantity_anomaly sample_numerics night_sale flat_history) = False \<and>
   error (check_quantity_anomaly sample_numerics night_sale flat_history) = None"
proof -
  have "check_quantity_anomaly sample_numerics night_sale [] = not_anomalous ''quantity''"
    by (simp add: check_quantity_anomaly_def check_quantity_anomaly_body_def absorb_def)
  moreover have "10 \<le> length (positive_quantity_rows flat_history)"
    by (simp add: flat_rows)
  note quantity_runs [OF flat_typed this night_quantity(1), of sample_numerics]
  ultimately show ?thesis
    by (simp add: positive_quantity_rows_def [of "[]"] flat_quantity_values flat_std
        runtime_z_score_def)
qed

section \<open>The explanation and the alert\<close>

text \<open>
  C7. When the verdict of \<open>analyze_transaction\<close> has \<open>anomaly_detected\<close> set, which is
  exactly when the window has at least 10 transactions and at least 3 detectors flagged,
  its message is \<open>Suspicious transaction detected: \<close> followed by the clauses of the
  flagged detectors, one each, in the order of the checks (amount, quantity, timing,
  price), joined with a comma and a blank, and exactly one alert is appended to the store,
  of type \<open>fraud_risk\<close>, severity \<open>high\<close>, with that message; when it is not set, the
  store is unchanged. On a list without a flagged check the explanation is
  \<open>Transaction appears normal\<close>. A verdict is returned for every transaction whose
  amount is a number or is missing; the call raises, before anything is written, only
  when at least 3 detectors flagged, the amount among them, and the amount has no
  rendering with two decimals.
\<close>

theorem analyze_alert:
  assumes "checks =
      [check_amount_anomaly self lib num transaction (get_transactions_range d uid),
       check_quantity_anomaly num transaction (get_transactions_range d uid),
       check_unusual_timing lib transaction (get_transactions_range d uid),
       check_price_deviation lib num transaction (get_transactions_range d uid) entities]"
  shows "(\<forall>resp d'.
            analyze_transaction self lib num d uid transaction entities = Inr (resp, d') \<longrightarrow>
              (anomaly_detected resp \<longrightarrow>
                 (\<exists>clauses msg.
                    list_all2 (\<lambda>c m. risk_clause lib c = Inr [m] \<and>
                                     (\<exists>rest. m = clause_label (check c) @ rest))
                      (filter is_anomaly checks) clauses \<and>
                    msg = ''Suspicious transaction detected: '' @ join '', '' clauses \<and>
                    message resp = Some msg \<and>
                    stored_alerts d' =
                      stored_alerts d @
                        [\<lparr>alert_user_id = uid, alert_type = ''fraud_risk'',
                          alert_message = msg, alert_severity = ''high'',
                          alert_read = False\<rparr>] \<and>
                    transactions_range d' = transactions_range d)) \<and>
              (\<not> anomaly_detected resp \<longrightarrow> d' = d \<and> message resp = None) \<and>
              (anomaly_detected resp \<longleftrightarrow>
                 10 \<le> length (get_transactions_range d uid) \<and>
                 3 \<le> length (filter is_anomaly checks))) \<and>
         map check checks = [''amount'', ''quantity'', ''timing'', ''price''] \<and>
         (\<forall>cs. filter is_anomaly cs = [] \<longrightarrow>
            generate_risk_message lib cs = Inr ''Transaction appears normal'') \<and>
         (transaction ''amount'' = None \<or> (\<exists>x. transaction ''amount'' = Some (PNum x)) \<longrightarrow>
            (\<exists>resp d'.
               analyze_transaction self lib num d uid transaction entities = Inr (resp, d'))) \<and>
         (\<forall>e. analyze_transaction self lib num d uid transaction entities = Inl e \<longrightarrow>
            10 \<le> length (get_transactions_range d uid) \<and>
            3 \<le> length (filter is_anomaly checks) \<and>
            is_anomaly (check_amount_anomaly self lib num transaction
                          (get_transactions_range d uid)) \<and>
            (\<exists>v. transaction ''amount'' = Some v \<and> render_2f lib v = Inl e))"
proof -
  define k where "k = length (filter is_anomaly checks)"
  have names: "map check checks = [''amount'', ''quantity'', ''timing'', ''price'']"
    unfolding assms by (simp add: amount_name quantity_name timing_name price_name)
  have normal: "\<forall>cs. filter is_anomaly cs = [] \<longrightarrow>
        generate_risk_message lib cs = Inr ''Transaction appears normal''"
    by (simp add: generate_normal)
  have short: "analyze_transaction self lib num d uid transaction entities =
        Inr (\<lparr>anomaly_detected = False, risk_score = 0, alerts = [],
              message = None, details = None\<rparr>, d)"
    if "length (get_transactions_range d uid) < 10"
    using that by (simp add: analyze_transaction_def Let_def)
  have verdict: "(anomaly_detected resp \<longrightarrow>
                 (\<exists>clauses msg.
                    list_all2 (\<lambda>c m. risk_clause lib c = Inr [m] \<and>
                                     (\<exists>rest. m = clause_label (check c) @ rest))
                      (filter is_anomaly checks) clauses \<and>
                    msg = ''Suspicious transaction detected: '' @ join '', '' clauses \<and>
                    message resp = Some msg \<and>
                    stored_alerts d' =
                      stored_alerts d @
                        [\<lparr>alert_user_id = uid, alert_type = ''fraud_risk'',
                          alert_message = msg, alert_severity = ''high'',
                          alert_read = False\<rparr>] \<and>
                    transactions_range d' = transactions_range d)) \<and>
              (\<not> anomaly_detected resp \<longrightarrow> d' = d \<and> message resp = None) \<and>
              (anomaly_detected resp \<longleftrightarrow>
                 10 \<le> length (get_transactions_range d uid) \<and>
                 3 \<le> length (filter is_anomaly checks))"
    if res: "analyze_transaction self lib num d uid transaction entities = Inr (resp, d')"
    for resp d'
  proof (cases "length (get_transactions_range d uid) < 10")
    case True
    from res short [OF True] have "\<not> anomaly_detected resp" "d' = d" "message resp = None"
      by auto
    with True show ?thesis by simp
  next
    case False
    then have ten: "10 \<le> length (get_transactions_range d uid)" by simp
    note run = analyze_many [OF ten assms k_def]
    show ?thesis
    proof (cases "3 \<le> k")
      case True
      with res obtain msg where gen: "generate_risk_message lib checks = Inr msg"
        and det: "anomaly_detected resp" and m: "message resp = Some msg"
        and d': "d' = create_alert d uid ''fraud_risk'' msg ''high''"
        unfolding run by (auto split: sum.splits)
      from True have three: "3 \<le> length (filter is_anomaly checks)" by (simp add: k_def)
      then have ne: "filter is_anomaly checks \<noteq> []" by auto
      from explanation_clauses [OF assms gen ne] obtain clauses where
        cl: "list_all2 (\<lambda>c m. risk_clause lib c = Inr [m] \<and>
                            (\<exists>rest. m = clause_label (check c) @ rest))
             (filter is_anomaly checks) clauses"
        and msg: "msg = ''Suspicious transaction detected: '' @ join '', '' clauses"
        by blast
      have "stored_alerts d' =
                      stored_alerts d @
                        [\<lparr>alert_user_id = uid, alert_type = ''fraud_risk'',
                          alert_message = msg, alert_severity = ''high'',
                          alert_read = False\<rparr>]"
        "transactions_range d' = transactions_range d"
        unfolding d' by (simp_all add: stored_alerts_create_alert)
      with cl msg m det ten three show ?thesis by blast
    next
      case False
      with res have "\<not> anomaly_detected resp" "d' = d" "message resp = None"
        unfolding run by auto
      moreover from False have "\<not> 3 \<le> length (filter is_anomaly checks)" by (simp add: k_def)
      ultimately show ?thesis by blast
    qed
  qed
  have raises: "10 \<le> length (get_transactions_range d uid) \<and>
            3 \<le> length (filter is_anomaly checks) \<and>
            is_anomaly (check_amount_anomaly self lib num transaction
                          (get_transactions_range d uid)) \<and>
            (\<exists>v. transaction ''amount'' = Some v \<and> render_2f lib v = Inl e)"
    if res: "analyze_transaction self lib num d uid transaction entities = Inl e" for e
  proof -
    from res short have ten: "10 \<le> length (get_transactions_range d uid)"
      by (cases "length (get_transactions_range d uid) < 10") auto
    note run = analyze_many [OF ten assms k_def]
    from res have "3 \<le> k" and "generate_risk_message lib checks = Inl e"
      unfolding run by (auto split: if_splits sum.splits)
    then show ?thesis using ten unfolding assms explanation_fails k_def by blast
  qed
  have number: "\<exists>resp d'.
               analyze_transaction self lib num d uid transaction entities = Inr (resp, d')"
    if "transaction ''amount'' = None \<or> (\<exists>x. transaction ''amount'' = Some (PNum x))"
  proof (cases "analyze_transaction self lib num d uid transaction entities")
    case (Inl e)
    from raises [OF this] obtain v where
      "transaction ''amount'' = Some v" "render_2f lib v = Inl e" by blast
    with that show ?thesis by auto
  next
    case (Inr res)
    then show ?thesis by (cases res) blast
  qed
  from verdict names normal number raises show ?thesis by blast
qed

theorem analyze_alert_witness:
  "(\<exists>resp d'.
     analyze_transaction (RiskAgent_init Config) sample_library sample_numerics sample_db ''u1''
       night_sale (rice_entities 100) = Inr (resp, d') \<and>
     anomaly_detected resp \<and>
     message resp =
       Some (''Suspicious transaction detected: Unusual amount: '' @ rupee @
             ''#.##, Unusual quantity: #, Unusual timing: #:00'') \<and>
     stored_alerts d' =
       [\<lparr>alert_user_id = ''u1'', alert_type = ''fraud_risk'',
         alert_message =
           ''Suspicious transaction detected: Unusual amount: '' @ rupee @
           ''#.##, Unusual quantity: #, Unusual timing: #:00'',
         alert_severity = ''high'', alert_read = False\<rparr>]) \<and>
   (\<exists>resp d'.
     analyze_transaction (RiskAgent_init Config) sample_library sample_numerics empty_db ''u1''
       night_sale (rice_entities 100) = Inr (resp, d') \<and>
     \<not> anomaly_detected resp \<and> d' = empty_db) \<and>
   generate_risk_message sample_library [] = Inr ''Transaction appears normal'' \<and>
   analyze_transaction (RiskAgent_init Config) sample_library sample_numerics sample_db ''u1''
     text_amount_sale (rice_entities 100) = Inl ValueError \<and>
   3 \<le> length (filter is_anomaly
     [check_amount_anomaly (RiskAgent_init Config) sample_library sample_numerics
        text_amount_sale (get_transactions_range sample_db ''u1''),
      check_quantity_anomaly sample_numerics text_amount_sale
        (get_transactions_range sample_db ''u1''),
      check_unusual_timing sample_library text_amount_sale
        (get_transactions_range sample_db ''u1''),
      check_price_deviation sample_library sample_numerics text_amount_sale
        (get_transactions_range sample_db ''u1'') (rice_entities 100)])"
proof -
  note full = analyze_alert [OF refl, where self = "RiskAgent_init Config"
      and lib = sample_library and num = sample_numerics and transaction = night_sale
      and d = sample_db and uid = "''u1''" and entities = "rice_entities 100"]
  note none = analyze_alert [OF refl, where self = "RiskAgent_init Config"
      and lib = sample_library and num = sample_numerics and transaction = night_sale
      and d = empty_db and uid = "''u1''" and entities = "rice_entities 100"]
  note raise = analyze_alert [OF refl, where self = "RiskAgent_init Config"
      and lib = sample_library and num = sample_numerics and transaction = text_amount_sale
      and d = sample_db and uid = "''u1''" and entities = "rice_entities 100"]
  have a: "night_sale ''amount'' = None \<or> (\<exists>x. night_sale ''amount'' = Some (PNum x))"
    by (simp add: night_amount)
  from full [THEN conjunct2, THEN conjunct2, THEN conjunct2, THEN conjunct1, THEN mp, OF a]
  obtain resp d' where res: "analyze_transaction (RiskAgent_init Config) sample_library
      sample_numerics sample_db ''u1'' night_sale (rice_entities 100) = Inr (resp, d')"
    by blast
  note v = full [THEN conjunct1, THEN spec, THEN spec, THEN mp, OF res]
  have three: "10 \<le> length (get_transactions_range sample_db ''u1'') \<and>
     3 \<le> length (filter is_anomaly
       [check_amount_anomaly (RiskAgent_init Config) sample_library sample_numerics night_sale
          (get_transactions_range sample_db ''u1''),
        check_quantity_anomaly sample_numerics night_sale (get_transactions_range sample_db ''u1''),
        check_unusual_timing sample_library night_sale (get_transactions_range sample_db ''u1''),
        check_price_deviation sample_library sample_numerics night_sale
          (get_transactions_range sample_db ''u1'') (rice_entities 100)])"
    unfolding sample_range sample_flagged by simp
  from v [THEN conjunct2, THEN conjunct2] three have det: "anomaly_detected resp" by blast
  with v [THEN conjunct1] obtain clauses msg where
    cl: "list_all2 (\<lambda>c m. risk_clause sample_library c = Inr [m] \<and>
                            (\<exists>rest. m = clause_label (check c) @ rest))
       (filter is_anomaly
         [check_amount_anomaly (RiskAgent_init Config) sample_library sample_numerics night_sale
            (get_transactions_range sample_db ''u1''),
          check_quantity_anomaly sample_numerics night_sale
            (get_transactions_range sample_db ''u1''),
          check_unusual_timing sample_library night_sale
            (get_transactions_range sample_db ''u1''),
          check_price_deviation sample_library sample_numerics night_sale
            (get_transactions_range sample_db ''u1'') (rice_entities 100)]) clauses"
    and msg: "msg = ''Suspicious transaction detected: '' @ join '', '' clauses"
      "message resp = Some msg"
      "stored_alerts d' =
             stored_alerts sample_db @
               [\<lparr>alert_user_id = ''u1'', alert_type = ''fraud_risk'', alert_message = msg,
                 alert_severity = ''high'', alert_read = False\<rparr>]"
    by blast
  from cl have "clauses = [''Unusual amount: '' @ rupee @ ''#.##'', ''Unusual quantity: #'',
      ''Unusual timing: #:00'']"
    unfolding sample_range sample_flagged
    by (auto simp add: sample_clauses list_all2_Cons1)
  with msg have "message resp =
       Some (''Suspicious transaction detected: Unusual amount: '' @ rupee @
             ''#.##, Unusual quantity: #, Unusual timing: #:00'')"
    and "stored_alerts d' =
       [\<lparr>alert_user_id = ''u1'', alert_type = ''fraud_risk'',
         alert_message =
           ''Suspicious transaction detected: Unusual amount: '' @ rupee @
           ''#.##, Unusual quantity: #, Unusual timing: #:00'',
         alert_severity = ''high'', alert_read = False\<rparr>]"
    by (simp_all add: sample_db_def)
  with res det have first: "\<exists>resp d'.
     analyze_transaction (RiskAgent_init Config) sample_library sample_numerics sample_db ''u1''
       night_sale (rice_entities 100) = Inr (resp, d') \<and>
     anomaly_detected resp \<and>
     message resp =
       Some (''Suspicious transaction detected: Unusual amount: '' @ rupee @
             ''#.##, Unusual quantity: #, Unusual timing: #:00'') \<and>
     stored_alerts d' =
       [\<lparr>alert_user_id = ''u1'', alert_type = ''fraud_risk'',
         alert_message =
           ''Suspicious transaction detected: Unusual amount: '' @ rupee @
           ''#.##, Unusual quantity: #, Unusual timing: #:00'',
         alert_severity = ''high'', alert_read = False\<rparr>]"
    by blast
  from none [THEN conjunct2, THEN conjunct2, THEN conjunct2, THEN conjunct1, THEN mp, OF a]
  obtain resp0 d0 where res0: "analyze_transaction (RiskAgent_init Config) sample_library
      sample_numerics empty_db ''u1'' night_sale (rice_entities 100) = Inr (resp0, d0)"
    by blast
  note v0 = none [THEN conjunct1, THEN spec, THEN spec, THEN mp, OF res0]
  have "\<not> 10 \<le> length (get_transactions_range empty_db ''u1'')" by simp
  with v0 [THEN conjunct2, THEN conjunct2] have quiet: "\<not> anomaly_detected resp0" by blast
  with v0 [THEN conjunct2, THEN conjunct1] have "d0 = empty_db" by blast
  with res0 quiet have second: "\<exists>resp d'.
     analyze_transaction (RiskAgent_init Config) sample_library sample_numerics empty_db ''u1''
       night_sale (rice_entities 100) = Inr (resp, d') \<and>
     \<not> anomaly_detected resp \<and> d' = empty_db"
    by blast
  from full [THEN conjunct2, THEN conjunct2, THEN conjunct1]
  have third: "generate_risk_message sample_library [] = Inr ''Transaction appears normal''"
    by simp
  from raise [THEN conjunct2, THEN conjunct2, THEN conjunct2, THEN conjunct2, THEN spec,
      THEN mp, OF sample_text_analyze]
  have fourth: "3 \<le> length (filter is_anomaly
     [check_amount_anomaly (RiskAgent_init Config) sample_library sample_numerics
        text_amount_sale (get_transactions_range sample_db ''u1''),
      check_quantity_anomaly sample_numerics text_amount_sale
        (get_transactions_range sample_db ''u1''),
      check_unusual_timing sample_library text_amount_sale
        (get_transactions_range sample_db ''u1''),
      check_price_deviation sample_library sample_numerics text_amount_sale
        (get_transactions_range sample_db ''u1'') (rice_entities 100)])"
    by blast
  from first second third sample_text_analyze fourth show ?thesis
    by - ((rule conjI, assumption)+, assumption)
qed

end
